theory Spec2Isabelle
  imports Complex_Main
begin

section \<open>Python values\<close>

text \<open>
  A Python \<open>str\<close> is modelled as a \<open>string\<close>; the character \<open>c\<close> stands for the
  code point \<open>of_char c\<close>, so the alphabet of the model is the code points 0 to 255.
  The character classes below are the ones \<open>str.isspace\<close>, \<open>str.isdigit\<close>,
  \<open>str.lower\<close>, \<open>str.istitle\<close> and the \<open>re\<close> module (\<open>\s\<close>, \<open>\d\<close>, \<open>\w\<close>) use
  on that range. A message is always a \<open>str\<close>: the conversions \<open>str(text)\<close> at the
  head of the normalizers are the identity on it.
\<close>

definition ord :: "char \<Rightarrow> nat" where
  "ord c = of_char c"

definition is_space :: "char \<Rightarrow> bool" where
  "is_space c = ((9 \<le> ord c \<and> ord c \<le> 13) \<or> (28 \<le> ord c \<and> ord c \<le> 32)
     \<or> ord c = 133 \<or> ord c = 160)"

definition is_decimal :: "char \<Rightarrow> bool" where
  \<comment> \<open>\<open>\d\<close>, and the characters \<open>int()\<close> and \<open>float()\<close> read as digits\<close>
  "is_decimal c = (48 \<le> ord c \<and> ord c \<le> 57)"

definition is_digit :: "char \<Rightarrow> bool" where
  \<comment> \<open>\<open>str.isdigit\<close>: the decimal digits and the superscripts two, three and one\<close>
  "is_digit c = (is_decimal c \<or> ord c = 178 \<or> ord c = 179 \<or> ord c = 185)"

definition is_upper :: "char \<Rightarrow> bool" where
  "is_upper c = ((65 \<le> ord c \<and> ord c \<le> 90) \<or> (192 \<le> ord c \<and> ord c \<le> 214)
     \<or> (216 \<le> ord c \<and> ord c \<le> 222))"

definition is_lower :: "char \<Rightarrow> bool" where
  "is_lower c = ((97 \<le> ord c \<and> ord c \<le> 122) \<or> (223 \<le> ord c \<and> ord c \<le> 246)
     \<or> (248 \<le> ord c \<and> ord c \<le> 255) \<or> ord c = 170 \<or> ord c = 181 \<or> ord c = 186)"

definition is_letter :: "char \<Rightarrow> bool" where
  \<comment> \<open>\<open>[A-Z]\<close> and \<open>[a-z]\<close> under \<open>re.IGNORECASE\<close>\<close>
  "is_letter c = ((65 \<le> ord c \<and> ord c \<le> 90) \<or> (97 \<le> ord c \<and> ord c \<le> 122))"

definition is_word :: "char \<Rightarrow> bool" where
  \<comment> \<open>\<open>\w\<close>: alphanumeric or underscore\<close>
  "is_word c = (is_upper c \<or> is_lower c \<or> is_digit c
     \<or> (188 \<le> ord c \<and> ord c \<le> 190) \<or> c = CHR ''_'')"

definition lower_char :: "char \<Rightarrow> char" where
  "lower_char c = (if is_upper c then char_of (ord c + 32) else c)"

definition py_lower :: "string \<Rightarrow> string" where
  "py_lower s = map lower_char s"

definition py_strip :: "string \<Rightarrow> string" where
  "py_strip s = rev (dropWhile is_space (rev (dropWhile is_space s)))"

definition isdigit_str :: "string \<Rightarrow> bool" where
  \<comment> \<open>\<open>s.isdigit()\<close>: non-empty and every character a digit\<close>
  "isdigit_str s = (s \<noteq> [] \<and> list_all is_digit s)"

fun starts_with :: "string \<Rightarrow> string \<Rightarrow> bool" where
  "starts_with s [] = True"
| "starts_with [] (p # ps) = False"
| "starts_with (c # cs) (p # ps) = (c = p \<and> starts_with cs ps)"

fun contains :: "string \<Rightarrow> string \<Rightarrow> bool" where
  \<comment> \<open>\<open>sub in s\<close>\<close>
  "contains [] sub = (sub = [])"
| "contains (c # cs) sub = (starts_with (c # cs) sub \<or> contains cs sub)"

fun split_on :: "char \<Rightarrow> string \<Rightarrow> string list" where
  \<comment> \<open>\<open>s.split(sep)\<close> for a separator of one character: empty pieces are kept\<close>
  "split_on sep [] = [[]]"
| "split_on sep (c # cs) =
     (if c = sep then [] # split_on sep cs
      else (case split_on sep cs of [] \<Rightarrow> [[c]] | p # ps \<Rightarrow> (c # p) # ps))"

fun split_ws :: "string \<Rightarrow> string list" where
  \<comment> \<open>\<open>s.split()\<close>: the maximal runs of non-whitespace characters\<close>
  "split_ws [] = []"
| "split_ws (c # cs) =
     (if is_space c then split_ws cs
      else (case cs of
              [] \<Rightarrow> [[c]]
            | d # ds \<Rightarrow> (if is_space d then [c] # split_ws cs
                        else (case split_ws cs of [] \<Rightarrow> [[c]] | p # ps \<Rightarrow> (c # p) # ps))))"

fun istitle_from :: "bool \<Rightarrow> bool \<Rightarrow> string \<Rightarrow> bool" where
  \<comment> \<open>the loop of \<open>str.istitle\<close>: \<open>cased\<close>, \<open>previous_is_cased\<close>, the rest of the string\<close>
  "istitle_from cased prev [] = cased"
| "istitle_from cased prev (c # cs) =
     (if is_upper c then (if prev then False else istitle_from True True cs)
      else if is_lower c then (if \<not> prev then False else istitle_from True True cs)
      else istitle_from cased False cs)"

definition istitle :: "string \<Rightarrow> bool" where
  "istitle s = istitle_from False False s"

definition join_with :: "string \<Rightarrow> string list \<Rightarrow> string" where
  \<comment> \<open>\<open>sep.join(xs)\<close>\<close>
  "join_with sep xs = (case xs of [] \<Rightarrow> [] | y # ys \<Rightarrow> y @ concat (map (\<lambda>z. sep @ z) ys))"

definition dec_value :: "string \<Rightarrow> nat" where
  \<comment> \<open>the number a run of decimal digits denotes\<close>
  "dec_value ds = foldl (\<lambda>a c. 10 * a + (ord c - 48)) 0 ds"

datatype py_error =
    ValueError | KeyError | TypeError | OverflowError | IndexError
  | ZeroDivisionError | ExternalError string

text \<open>
  A \<open>float\<close> is either a finite number, an infinity or not-a-number. A finite float is
  modelled by the rational it denotes; what the model keeps of binary64 is the range:
  \<open>float()\<close> of a numeral at or beyond \<open>2^1024 - 2^970\<close> in magnitude is an infinity,
  and of one at or below \<open>2^-1075\<close> is zero. Rounding inside the range is not modelled.
\<close>

datatype pyfloat = Fin rat | PosInf | NegInf | NaN

definition float_of_rat :: "rat \<Rightarrow> pyfloat" where
  "float_of_rat v =
     (if 2 ^ 1024 - 2 ^ 970 \<le> v then PosInf
      else if v \<le> - (2 ^ 1024 - 2 ^ 970) then NegInf
      else if \<bar>v\<bar> \<le> 1 / 2 ^ 1075 then Fin 0
      else Fin v)"

definition round_half_even :: "rat \<Rightarrow> int" where
  "round_half_even v =
     (let f = floor v; d = v - of_int f
      in if d < 1 / 2 then f else if 1 / 2 < d then f + 1
         else if even f then f else f + 1)"

definition py_round :: "pyfloat \<Rightarrow> py_error + int" where
  \<comment> \<open>\<open>round(x)\<close> of a float: an infinity and not-a-number have no integer\<close>
  "py_round x = (case x of
       Fin v \<Rightarrow> Inr (round_half_even v)
     | PosInf \<Rightarrow> Inl OverflowError
     | NegInf \<Rightarrow> Inl OverflowError
     | NaN \<Rightarrow> Inl ValueError)"

text \<open>
  The values a conversation stores and the feature assembler reads: strings, integers,
  floats, lists of strings (the selected symptoms) and \<open>None\<close>.
\<close>

datatype pyval = PStr string | PInt int | PFloat pyfloat | PList "string list" | PNone

section \<open>Field normalizers (chatbot_flow.py)\<close>

subsection \<open>The three regular expressions\<close>

text \<open>
  \<open>re.search\<close> returns the leftmost match, and at one position the first match in
  the order of backtracking. Each search below is that match, written as a scan.

  \<open>[-+]?\d*\.?\d+\<close>: after an optional sign, the maximal run of digits, then a dot
  and the maximal run of digits behind it when there is a digit behind the dot; without
  such a fraction the run of digits alone, which must not be empty. The match is
  returned as (negative, integer digits, fraction digits).
\<close>

definition num_body :: "string \<Rightarrow> (string \<times> string) option" where
  "num_body r =
     (let d1 = takeWhile is_decimal r; r1 = dropWhile is_decimal r
      in (case r1 of
            [] \<Rightarrow> (if d1 \<noteq> [] then Some (d1, []) else None)
          | c # r2 \<Rightarrow>
              (if c = CHR ''.'' \<and> r2 \<noteq> [] \<and> is_decimal (hd r2)
               then Some (d1, takeWhile is_decimal r2)
               else if d1 \<noteq> [] then Some (d1, []) else None)))"

fun num_search :: "string \<Rightarrow> (bool \<times> string \<times> string) option" where
  "num_search [] = None"
| "num_search (c # cs) =
     (if c = CHR ''-'' \<or> c = CHR ''+''
      then (case num_body cs of
              Some (a, b) \<Rightarrow> Some (c = CHR ''-'', a, b)
            | None \<Rightarrow> num_search cs)
      else (case num_body (c # cs) of
              Some (a, b) \<Rightarrow> Some (False, a, b)
            | None \<Rightarrow> num_search cs))"

definition float_of_match :: "bool \<times> string \<times> string \<Rightarrow> pyfloat" where
  \<comment> \<open>\<open>float(m.group())\<close>\<close>
  "float_of_match m =
     (case m of (neg, a, b) \<Rightarrow>
        (let v = of_nat (dec_value a) + of_nat (dec_value b) / 10 ^ length b
         in float_of_rat (if neg then - v else v)))"

text \<open>
  \<open>\b(\d{1,3})\b\<close>: a run of one to three digits with no word character before it and
  none behind it. The first argument says whether the previous character is a word
  character.
\<close>

fun age_search :: "bool \<Rightarrow> string \<Rightarrow> string option" where
  "age_search prevw [] = None"
| "age_search prevw (c # cs) =
     (if \<not> prevw \<and> is_decimal c
      then (let ds = takeWhile is_decimal (c # cs); rest = dropWhile is_decimal (c # cs)
            in if length ds \<le> 3 \<and> (rest = [] \<or> \<not> is_word (hd rest))
               then Some ds else age_search (is_word c) cs)
      else age_search (is_word c) cs)"

text \<open>
  \<open>(my name is|i am|this is)\s+([A-Z][a-z]+(?:\s+[A-Z][a-z]+)*)\<close> with
  \<open>re.IGNORECASE\<close>: one of the three openings, whitespace, then words of at least two
  letters separated by whitespace. The search returns group 2.
\<close>

fun starts_with_ci :: "string \<Rightarrow> string \<Rightarrow> bool" where
  "starts_with_ci s [] = True"
| "starts_with_ci [] (p # ps) = False"
| "starts_with_ci (c # cs) (p # ps) = (lower_char c = lower_char p \<and> starts_with_ci cs ps)"

function name_tail :: "string \<Rightarrow> string" where
  "name_tail r =
     (let ws = takeWhile is_space r; r1 = dropWhile is_space r; w = takeWhile is_letter r1
      in if ws \<noteq> [] \<and> 2 \<le> length w then ws @ w @ name_tail (dropWhile is_letter r1)
         else [])"
  by pat_completeness auto
termination
proof (relation "measure length")
  show "wf (measure length)" by simp
next
  fix r ws r1 w :: string
  assume a: "ws = takeWhile is_space r" "r1 = dropWhile is_space r"
    and b: "ws \<noteq> [] \<and> 2 \<le> length w"
  have "length r1 < length r"
  proof -
    have "length r = length ws + length r1"
      using a by (metis length_append takeWhile_dropWhile_id)
    with b show ?thesis by simp
  qed
  moreover have "length (dropWhile is_letter r1) \<le> length r1"
    by (rule length_dropWhile_le)
  ultimately show "(dropWhile is_letter r1, r) \<in> measure length" by simp
qed

definition name_words :: "string \<Rightarrow> string option" where
  "name_words r =
     (let ws = takeWhile is_space r; r1 = dropWhile is_space r; w = takeWhile is_letter r1
      in if ws \<noteq> [] \<and> 2 \<le> length w then Some (w @ name_tail (dropWhile is_letter r1))
         else None)"

definition name_at :: "string \<Rightarrow> string option" where
  "name_at s =
     (if starts_with_ci s ''my name is'' then name_words (drop 10 s)
      else if starts_with_ci s ''i am'' then name_words (drop 4 s)
      else if starts_with_ci s ''this is'' then name_words (drop 7 s)
      else None)"

fun name_search :: "string \<Rightarrow> string option" where
  "name_search [] = None"
| "name_search (c # cs) =
     (case name_at (c # cs) of Some n \<Rightarrow> Some n | None \<Rightarrow> name_search cs)"

subsection \<open>Extractors and mappers\<close>

definition extract_name :: "string \<Rightarrow> string" where
  "extract_name text0 =
     (let text = filter (\<lambda>c. c \<noteq> CHR ''*'' \<and> c \<noteq> CHR ''_'' \<and> c \<noteq> CHR 0x60) text0
      in (case name_search text of
            Some n \<Rightarrow> py_strip n
          | None \<Rightarrow>
              (let ws = filter istitle (split_ws text)
               in if ws \<noteq> [] then join_with '' '' ws else py_strip text)))"

definition extract_age :: "string \<Rightarrow> int" where
  "extract_age text = (case age_search False text of
       Some ds \<Rightarrow> int (dec_value ds) | None \<Rightarrow> 0)"

definition extract_numeric :: "string \<Rightarrow> pyfloat" where
  "extract_numeric text = (case num_search text of
       Some m \<Rightarrow> float_of_match m | None \<Rightarrow> Fin 0)"

definition norm_yes_no :: "string \<Rightarrow> string" where
  "norm_yes_no text =
     (let t = py_lower (py_strip text)
      in if t \<in> set [''y'', ''yes'', ''yeah'', ''yep'', ''true''] then ''yes''
         else if t \<in> set [''n'', ''no'', ''nope'', ''false''] then ''no''
         else ''not sure'')"

definition map_gender :: "string \<Rightarrow> string" where
  "map_gender text =
     (let t = py_lower (py_strip text)
      in if t \<in> set [''male'', ''m''] then ''Male''
         else if t \<in> set [''female'', ''f''] then ''Female''
         else ''Ambiguous'')"

definition map_binary_yes_no :: "string \<Rightarrow> string" where
  "map_binary_yes_no text = (let t = norm_yes_no text in if t = ''yes'' then ''Yes'' else ''No'')"

definition map_birth_asphyxia :: "string \<Rightarrow> string" where
  "map_birth_asphyxia text =
     (let t = norm_yes_no text
      in if t = ''yes'' then ''Yes''
         else if t = ''no'' then ''No record''
         else ''Not available'')"

definition autopsy_negative :: "string list" where
  "autopsy_negative =
     [''none'', ''no'', ''nil'', ''-'', ''not applicable'', ''na'', ''n/a'', ''unknown'']"

definition map_autopsy_birth_defect :: "string \<Rightarrow> string" where
  "map_autopsy_birth_defect text =
     (let t = py_lower (py_strip text)
      in if t \<in> set autopsy_negative then ''None'' else ''Yes'')"

definition gene_negative :: "string list" where
  "gene_negative =
     [''no'', ''none'', ''nil'', ''-'', ''not detected'', ''n/a'', ''na'', ''null'', '''',
      ''not sure'', ''unknown'']"

definition map_maternal_paternal_gene :: "string \<Rightarrow> string" where
  "map_maternal_paternal_gene text =
     (let t = py_lower (py_strip text)
      in if t \<in> set gene_negative then ''No'' else ''Yes'')"

definition map_blood_test_result :: "string \<Rightarrow> string" where
  "map_blood_test_result text =
     (let t = py_lower (py_strip text)
      in if t \<in> set [''normal'', ''n'', ''ok'', ''within range''] then ''normal''
         else if list_ex (contains t) [''high'', ''low'', ''abnormal'', ''slightly abnormal'']
         then ''slightly abnormal''
         else ''inconclusive'')"

definition float_le :: "pyfloat \<Rightarrow> pyfloat \<Rightarrow> bool" where
  \<comment> \<open>\<open>x <= y\<close> on floats; every comparison with not-a-number is false\<close>
  "float_le x y = (case (x, y) of
       (NaN, _) \<Rightarrow> False | (_, NaN) \<Rightarrow> False
     | (NegInf, _) \<Rightarrow> True | (_, PosInf) \<Rightarrow> True
     | (Fin a, Fin b) \<Rightarrow> a \<le> b
     | _ \<Rightarrow> False)"

definition float_less :: "pyfloat \<Rightarrow> pyfloat \<Rightarrow> bool" where
  "float_less x y = (float_le x y \<and> x \<noteq> y)"

definition map_respiratory_rate :: "string \<Rightarrow> string" where
  "map_respiratory_rate value_text =
     (let t = py_lower (py_strip value_text)
      in if contains t ''tachyp'' then ''Tachypnea''
         else if contains t ''normal'' then ''Normal (30-60)''
         else (case num_search t of
                 Some m \<Rightarrow>
                   (let val = float_of_match m
                    in if float_le (Fin 30) val \<and> float_le val (Fin 60)
                       then ''Normal (30-60)'' else ''Tachypnea'')
               | None \<Rightarrow> ''Normal (30-60)''))"

definition map_heart_rate :: "string \<Rightarrow> string" where
  "map_heart_rate value_text =
     (let t = py_lower (py_strip value_text)
      in if contains t ''tachy'' then ''Tachycardia''
         else if contains t ''normal'' then ''Normal''
         else (case num_search t of
                 Some m \<Rightarrow>
                   (if float_less (Fin 100) (float_of_match m) then ''Tachycardia''
                    else ''Normal'')
               | None \<Rightarrow> ''Normal''))"

section \<open>The conversation (chatbot_flow.py)\<close>

text \<open>
  \<open>chat_state['step']\<close> is an integer index or one of the strings
  \<open>"final_waiting"\<close> and \<open>"completed"\<close>. The key \<open>symptom_list\<close> is absent until
  the symptom prompt has been shown.
\<close>

datatype step_value = Num int | Name string

record chat_state =
  step :: step_value
  answers :: "string \<rightharpoonup> pyval"
  final_prediction :: "string option"
  report_pdf_path :: "string option"
  symptom_selection_pending :: bool
  symptom_list :: "string list option"

datatype response =
    Text string
  | SymptomSelection string "string list"
  | WaitAndPredict string
  | FinalResult string

definition reset_session :: "chat_state \<times> string" where
  "reset_session =
     (\<lparr>step = Num 0, answers = Map.empty, final_prediction = None, report_pdf_path = None,
       symptom_selection_pending = False, symptom_list = None\<rparr>,
      ''Welcome to GeneAccessAI. I'm Dr. GeneAccess. Let's begin. What's your full name?'')"

definition symptom_columns :: "string list" where
  \<comment> \<open>the same 55 names in \<open>handle_input\<close>, \<open>_map_answers_to_model_features\<close> and
      \<open>SYMPTOM_COLUMNS\<close> of generator.py\<close>
  "symptom_columns =
     [''Cough'', ''Wheezing'', ''Frequent lung infections'', ''Poor growth'',
      ''Salty skin'', ''Shortness of breath'', ''Fatigue'', ''Digestive problems'',
      ''Clubbing of fingers'', ''Nasal polyps'', ''High blood sugar'', ''Excessive thirst'',
      ''Frequent urination'', ''Blurred vision'', ''Slow healing'', ''Tingling/numbness'',
      ''Weight loss'', ''Increased hunger'', ''Recurrent infections'', ''Joint pain'',
      ''Abdominal pain'', ''Liver enlargement'', ''Skin bronzing'', ''Heart problems'',
      ''Loss of libido'', ''Memory problems'', ''Vision loss'', ''Central vision defect'',
      ''Eye pain'', ''Color vision problems'', ''Visual hallucinations'',
      ''Difficulty reading'', ''Loss of depth perception'', ''Optic disc swelling'',
      ''Headaches'', ''Developmental delay'', ''Muscle weakness'', ''Vomiting'', ''Seizures'',
      ''Breathing problems'', ''Poor feeding'', ''Hypotonia'', ''Movement disorders'',
      ''Lactic acidosis'', ''Eye movement abnormalities'', ''Exercise intolerance'',
      ''Gastrointestinal problems'', ''Tremors'', ''Neuropathy'', ''Loss of motor skills'',
      ''Cherry-red spot'', ''Muscle stiffness'', ''Startle response'',
      ''Difficulty swallowing'', ''Poor coordination'']"

subsection \<open>Symptom selection\<close>

definition max_str_digits :: nat where
  \<comment> \<open>the interpreter's default limit on the digits of a numeral read by \<open>int()\<close>
      (\<open>sys.int_info.default_max_str_digits\<close>)\<close>
  "max_str_digits = 4300"

definition is_numeral :: "string \<Rightarrow> bool" where
  \<comment> \<open>the tokens of digits that \<open>int()\<close> reads: decimal digits only (a superscript
      digit is no numeral), and no more of them than the limit\<close>
  "is_numeral t = (list_all is_decimal t \<and> length t \<le> max_str_digits)"

definition int_of_digits :: "string \<Rightarrow> py_error + int" where
  \<comment> \<open>\<open>int(t)\<close> of a token that passed \<open>isdigit()\<close>\<close>
  "int_of_digits t = (if is_numeral t then Inr (int (dec_value t)) else Inl ValueError)"

fun parse_indices :: "string list \<Rightarrow> py_error + int list" where
  "parse_indices [] = Inr []"
| "parse_indices (t # ts) =
     (case int_of_digits t of
        Inl e \<Rightarrow> Inl e
      | Inr n \<Rightarrow> (case parse_indices ts of Inl e \<Rightarrow> Inl e | Inr ns \<Rightarrow> Inr ((n - 1) # ns)))"

definition select_symptoms :: "chat_state \<Rightarrow> string \<Rightarrow> py_error + string list" where
  \<comment> \<open>the three comprehensions of the \<open>try\<close> block; the catalog is read only for an
      index that is not negative\<close>
  "select_symptoms s message =
     (case parse_indices (filter isdigit_str (map py_strip (split_on (CHR '','') message))) of
        Inl e \<Rightarrow> Inl e
      | Inr idx \<Rightarrow>
          (case symptom_list s of
             None \<Rightarrow> (if list_ex (\<lambda>i. 0 \<le> i) idx then Inl KeyError else Inr [])
           | Some cat \<Rightarrow>
               Inr (map (\<lambda>i. cat ! nat i) (filter (\<lambda>i. 0 \<le> i \<and> i < int (length cat)) idx))))"

subsection \<open>The step table\<close>

definition abortion_count :: "string \<Rightarrow> py_error + pyval" where
  \<comment> \<open>\<open>lambda x: max(0,int(round(extract_numeric(x))))\<close>\<close>
  "abortion_count x = (case py_round (extract_numeric x) of
       Inl e \<Rightarrow> Inl e | Inr n \<Rightarrow> Inr (PInt (max 0 n)))"

definition count_or_default :: "rat \<Rightarrow> string \<Rightarrow> pyfloat" where
  \<comment> \<open>\<open>lambda x: d if extract_numeric(x)==0 else float(extract_numeric(x))\<close>\<close>
  "count_or_default d x = (if extract_numeric x = Fin 0 then Fin d else extract_numeric x)"

definition str_step :: "(string \<Rightarrow> string) \<Rightarrow> string \<Rightarrow> py_error + pyval" where
  "str_step f x = Inr (PStr (f x))"

definition steps_table :: "(int \<times> string \<times> (string \<Rightarrow> py_error + pyval) \<times> string) list" where
  "steps_table =
   [(0, ''name'', str_step extract_name, ''How old are you?''),
    (1, ''Patient Age'', (\<lambda>x. Inr (PInt (extract_age x))),
        ''What is your gender? (Male / Female / Ambiguous)''),
    (2, ''Gender'', str_step map_gender,
        ''Does anyone in your family have genetic health problems? (Yes / No / Not sure)''),
    (3, ''Family History'', str_step map_binary_yes_no,
        ''Have there been any birth defects in your family? (If none, type 'None')''),
    (4, ''Autopsy shows birth defect (if applicable)'', str_step map_autopsy_birth_defect,
        ''symptom_selection''),
    (5, ''History of anomalies in previous pregnancies'', str_step map_binary_yes_no,
        ''Did you have trouble breathing when you were born? (Birth asphyxia)''),
    (6, ''Birth asphyxia'', str_step map_birth_asphyxia,
        ''Did your mother have any serious illness during pregnancy?''),
    (7, ''H/O serious maternal illness'', str_step map_binary_yes_no,
        ''Was your mother exposed to X-rays during pregnancy?''),
    (8, ''H/O radiation exposure (x-ray)'', str_step map_binary_yes_no,
        ''Was assisted conception (IVF/ART) used?''),
    (9, ''Assisted conception IVF/ART'', str_step map_binary_yes_no,
        ''How old was your mother when you were born?''),
    (10, ''Mother's age'', (\<lambda>x. Inr (PFloat (extract_numeric x))),
        ''How old was your father when you were born?''),
    (11, ''Father's age'', (\<lambda>x. Inr (PFloat (extract_numeric x))),
        ''How many previous abortions in the family?''),
    (12, ''No. of previous abortion'', abortion_count,
        ''Did your mother take folic acid or vitamins during pregnancy?''),
    (13, ''Folic acid details (peri-conceptional)'', str_step map_binary_yes_no,
        ''Do you know if you inherited any genes from your mother's side?''),
    (14, ''Genes in mother's side'', str_step map_binary_yes_no,
        ''Do you know if you inherited any genes from your father's side?''),
    (15, ''Inherited from father'', str_step map_binary_yes_no,
        ''Any specific maternal gene detected?''),
    (16, ''Maternal gene'', str_step map_maternal_paternal_gene,
        ''Any specific paternal gene detected?''),
    (17, ''Paternal gene'', str_step map_maternal_paternal_gene,
        ''Do you know your blood cell count?''),
    (18, ''Blood cell count (mcL)'', (\<lambda>x. Inr (PFloat (count_or_default (48 / 10) x))),
        ''Do you know your white blood cell count?''),
    (19, ''White Blood cell count (thousand per microliter)'',
        (\<lambda>x. Inr (PFloat (count_or_default 7 x))),
        ''What was your recent blood test result?''),
    (20, ''Blood test result'', str_step map_blood_test_result,
        ''Do you know your breathing rate?''),
    (21, ''Respiratory Rate (breaths/min)'', str_step map_respiratory_rate,
        ''Do you know your heart rate?''),
    (22, ''Heart Rate (rates/min'', str_step map_heart_rate, ''Final step'')]"

definition steps_map :: "int \<Rightarrow> (string \<times> (string \<Rightarrow> py_error + pyval) \<times> string) option" where
  "steps_map k = map_of steps_table k"

definition store_answer :: "string \<Rightarrow> pyval \<Rightarrow> (string \<rightharpoonup> pyval) \<Rightarrow> (string \<rightharpoonup> pyval)" where
  \<comment> \<open>the answer under its key, and the friendly duplicates\<close>
  "store_answer key val a =
     (let a0 = a(key \<mapsto> val);
          a1 = (if key = ''name'' then a0(''name'' \<mapsto> val) else a0);
          a2 = (if key = ''Patient Age'' then a1(''age'' \<mapsto> val) else a1);
          a3 = (if key = ''Gender'' then a2(''sex'' \<mapsto> val) else a2)
      in if key = ''Family History'' then a3(''family_history'' \<mapsto> val) else a3)"

section \<open>Feature assembly and prediction (generator.py)\<close>

text \<open>
  What the code takes from outside is a parameter of the model: the classifier package
  that \<open>load_model_package\<close> returns (or the exception it raises), the conversions of
  the Python runtime and of pandas on values of any type, the report writer, the web
  session and the file system. A theorem below holds for every behaviour of them.
\<close>

record model_package =
  predict_proba :: "(string \<rightharpoonup> pyval) \<Rightarrow> py_error + rat list"
  classes :: "string list"
  feature_names :: "string list"

record env =
  load_model_package :: "py_error + model_package"
  str_of :: "pyval \<Rightarrow> string"
  to_numeric :: "pyval \<Rightarrow> py_error + pyfloat"
  int_of_str :: "string \<Rightarrow> py_error + int"
  format_percent :: "rat \<Rightarrow> string"
  write_report :: "(string \<rightharpoonup> pyval) \<Rightarrow> string \<Rightarrow> rat \<Rightarrow> (string \<rightharpoonup> rat) \<Rightarrow> py_error + string"
  session_user_id :: "py_error + bool"
  db_save_report :: "string \<Rightarrow> (string \<rightharpoonup> pyval) \<Rightarrow> py_error + unit"
  basename :: "string \<Rightarrow> string"
  path_exists :: "string \<Rightarrow> bool"

text \<open>
  \<open>str_of\<close> is \<open>str(v)\<close> on a value that is not a string, \<open>to_numeric\<close> is
  \<open>float(pd.to_numeric(v))\<close>, \<open>int_of_str\<close> is \<open>int(s)\<close> on a string,
  \<open>format_percent c\<close> is the text of \<open>c*100\<close> with two decimals, \<open>write_report\<close>
  renders the report and writes the file, \<open>session_user_id\<close> says whether the session
  holds a user id, and \<open>db_save_report\<close> adds the report to the database.
\<close>

definition py_str :: "env \<Rightarrow> pyval \<Rightarrow> string" where
  "py_str e v = (case v of PStr s \<Rightarrow> s | _ \<Rightarrow> str_of e v)"

definition get_default :: "('k \<rightharpoonup> 'v) \<Rightarrow> 'k \<Rightarrow> 'v \<Rightarrow> 'v" where
  \<comment> \<open>\<open>d.get(k, default)\<close>\<close>
  "get_default d k v = (case d k of Some x \<Rightarrow> x | None \<Rightarrow> v)"

definition truncate :: "rat \<Rightarrow> int" where
  "truncate v = (if 0 \<le> v then floor v else ceiling v)"

definition py_int :: "env \<Rightarrow> pyval \<Rightarrow> py_error + int" where
  \<comment> \<open>\<open>int(v)\<close>\<close>
  "py_int e v = (case v of
       PInt i \<Rightarrow> Inr i
     | PFloat (Fin r) \<Rightarrow> Inr (truncate r)
     | PFloat PosInf \<Rightarrow> Inl OverflowError
     | PFloat NegInf \<Rightarrow> Inl OverflowError
     | PFloat NaN \<Rightarrow> Inl ValueError
     | PStr s \<Rightarrow> int_of_str e s
     | PList xs \<Rightarrow> Inl TypeError
     | PNone \<Rightarrow> Inl TypeError)"

definition py_elems :: "pyval \<Rightarrow> py_error + string list" where
  \<comment> \<open>the elements \<open>set(v)\<close> iterates over\<close>
  "py_elems v = (case v of
       PList xs \<Rightarrow> Inr xs
     | PStr s \<Rightarrow> Inr (map (\<lambda>c. [c]) s)
     | _ \<Rightarrow> Inl TypeError)"

definition yes_tokens :: "string list" where
  "yes_tokens = [''y'', ''yes'', ''yeah'', ''yep'', ''true'', ''1'']"

definition no_tokens :: "string list" where
  "no_tokens = [''n'', ''no'', ''nope'', ''false'', ''0'']"

definition norm_yes_no_gen :: "env \<Rightarrow> pyval \<Rightarrow> string \<Rightarrow> string \<Rightarrow> string \<Rightarrow> string" where
  \<comment> \<open>\<open>_norm_yes_no(v, yes, no, unk)\<close>\<close>
  "norm_yes_no_gen e v yes no unk =
     (let t = py_lower (py_strip (py_str e v))
      in if t \<in> set yes_tokens then yes
         else if t \<in> set no_tokens then no
         else unk)"

definition norm_birth_asphyxia :: "env \<Rightarrow> pyval \<Rightarrow> string" where
  "norm_birth_asphyxia e v =
     (let t = py_lower (py_strip (py_str e v))
      in if t \<in> set yes_tokens then ''Yes''
         else if t \<in> set no_tokens then ''No record''
         else ''Not available'')"

definition norm_blood_test_result :: "env \<Rightarrow> pyval \<Rightarrow> string" where
  "norm_blood_test_result e v =
     (let t = py_lower (py_strip (py_str e v))
      in if t \<in> set [''normal'', ''ok'', ''within range''] then ''normal''
         else if list_ex (contains t) [''high'', ''low'', ''abnormal'', ''slightly abnormal'']
         then ''slightly abnormal''
         else ''inconclusive'')"

definition norm_resp_rate :: "env \<Rightarrow> pyval \<Rightarrow> string" where
  "norm_resp_rate e v =
     (let t = py_lower (py_strip (py_str e v))
      in if contains t ''tachyp'' then ''Tachypnea''
         else if contains t ''normal'' then ''Normal (30-60)''
         else (case to_numeric e v of
                 Inr val \<Rightarrow> (if float_le (Fin 30) val \<and> float_le val (Fin 60)
                             then ''Normal (30-60)'' else ''Tachypnea'')
               | Inl err \<Rightarrow> ''Normal (30-60)''))"

definition norm_heart_rate :: "env \<Rightarrow> pyval \<Rightarrow> string" where
  "norm_heart_rate e v =
     (let t = py_lower (py_strip (py_str e v))
      in if contains t ''tachy'' then ''Tachycardia''
         else if contains t ''normal'' then ''Normal''
         else (case to_numeric e v of
                 Inr val \<Rightarrow> (if float_less (Fin 100) val then ''Tachycardia'' else ''Normal'')
               | Inl err \<Rightarrow> ''Normal''))"

definition coerce_float :: "env \<Rightarrow> pyval \<Rightarrow> rat \<Rightarrow> pyfloat" where
  "coerce_float e v dflt =
     (case to_numeric e v of
        Inr x \<Rightarrow> (if x = NaN then Fin dflt else x)
      | Inl err \<Rightarrow> Fin dflt)"

definition coerce_int :: "env \<Rightarrow> pyval \<Rightarrow> int \<Rightarrow> int" where
  "coerce_int e v dflt =
     (case to_numeric e v of
        Inr x \<Rightarrow> (case py_round x of Inr n \<Rightarrow> n | Inl err \<Rightarrow> dflt)
      | Inl err \<Rightarrow> dflt)"

definition gene_flag :: "env \<Rightarrow> pyval \<Rightarrow> string" where
  \<comment> \<open>the inline normalizer of \<open>Maternal gene\<close> and \<open>Paternal gene\<close>\<close>
  "gene_flag e v =
     (if py_lower (py_strip (py_str e v))
           \<notin> set [''no'', ''none'', ''nil'', ''-'', ''not detected'', ''n/a'', ''na'', ''null'',
                    [], ''not sure'', ''unknown'']
      then ''Yes'' else ''No'')"

definition clinical_fields :: "env \<Rightarrow> (string \<rightharpoonup> pyval) \<Rightarrow> (string \<times> pyval) list" where
  \<comment> \<open>the assignments to \<open>row\<close> before the symptoms, in the order of the source\<close>
  "clinical_fields e user_data =
   [(''Patient Age'',
       PInt (coerce_int e (get_default user_data ''Patient Age''
                             (get_default user_data ''age'' (PInt 30))) 30)),
    (''Blood cell count (mcL)'',
       PFloat (coerce_float e (get_default user_data ''Blood cell count (mcL)''
                                 (PFloat (Fin (48 / 10)))) (48 / 10))),
    (''Mother's age'', PInt (coerce_int e (get_default user_data ''Mother's age'' (PInt 30)) 30)),
    (''Father's age'', PInt (coerce_int e (get_default user_data ''Father's age'' (PInt 32)) 32)),
    (''No. of previous abortion'',
       PInt (coerce_int e (get_default user_data ''No. of previous abortion'' (PInt 0)) 0)),
    (''White Blood cell count (thousand per microliter)'',
       PFloat (coerce_float e
                 (get_default user_data ''White Blood cell count (thousand per microliter)''
                    (PFloat (Fin 7))) 7)),
    (''Gender'',
       get_default user_data ''Gender'' (get_default user_data ''sex'' (PStr ''Ambiguous''))),
    (''Birth asphyxia'',
       PStr (norm_birth_asphyxia e (get_default user_data ''Birth asphyxia'' (PStr ''No record'')))),
    (''Autopsy shows birth defect (if applicable)'',
       get_default user_data ''Autopsy shows birth defect (if applicable)''
         (get_default user_data ''Autopsy'' (PStr ''None''))),
    (''Folic acid details (peri-conceptional)'',
       PStr (norm_yes_no_gen e
               (get_default user_data ''Folic acid details (peri-conceptional)'' (PStr ''No''))
               ''Yes'' ''No'' ''Not available'')),
    (''H/O serious maternal illness'',
       PStr (norm_yes_no_gen e (get_default user_data ''H/O serious maternal illness'' (PStr ''No''))
               ''Yes'' ''No'' ''Not available'')),
    (''H/O radiation exposure (x-ray)'',
       PStr (norm_yes_no_gen e
               (get_default user_data ''H/O radiation exposure (x-ray)'' (PStr ''No''))
               ''Yes'' ''No'' ''Not available'')),
    (''H/O substance abuse'', get_default user_data ''H/O substance abuse'' (PStr ''-'')),
    (''Assisted conception IVF/ART'',
       PStr (norm_yes_no_gen e (get_default user_data ''Assisted conception IVF/ART'' (PStr ''No''))
               ''Yes'' ''No'' ''Not available'')),
    (''History of anomalies in previous pregnancies'',
       PStr (norm_yes_no_gen e
               (get_default user_data ''History of anomalies in previous pregnancies'' (PStr ''No''))
               ''Yes'' ''No'' ''Not available'')),
    (''Blood test result'',
       PStr (norm_blood_test_result e (get_default user_data ''Blood test result'' (PStr ''normal'')))),
    (''Respiratory Rate (breaths/min)'',
       PStr (norm_resp_rate e
               (get_default user_data ''Respiratory Rate (breaths/min)'' (PStr ''Normal (30-60)'')))),
    (''Heart Rate (rates/min'',
       PStr (norm_heart_rate e (get_default user_data ''Heart Rate (rates/min'' (PStr ''Normal'')))),
    (''Genes in mother's side'',
       PStr (norm_yes_no_gen e (get_default user_data ''Genes in mother's side'' (PStr ''No''))
               ''Yes'' ''No'' ''Not available'')),
    (''Inherited from father'',
       PStr (norm_yes_no_gen e (get_default user_data ''Inherited from father'' (PStr ''No''))
               ''Yes'' ''No'' ''Not available'')),
    (''Maternal gene'', PStr (gene_flag e (get_default user_data ''Maternal gene'' (PStr ''No'')))),
    (''Paternal gene'', PStr (gene_flag e (get_default user_data ''Paternal gene'' (PStr ''No''))))]"

definition symptom_flag :: "env \<Rightarrow> (string \<rightharpoonup> pyval) \<Rightarrow> string list \<Rightarrow> string \<Rightarrow> int" where
  \<comment> \<open>the body of the loop over \<open>SYMPTOM_COLUMNS\<close>\<close>
  "symptom_flag e user_data selected s =
     (case user_data s of
        Some v \<Rightarrow>
          (case py_int e v of
             Inr n \<Rightarrow> n
           | Inl err \<Rightarrow>
               (if py_lower (py_strip (py_str e v)) \<in> set [''1'', ''yes'', ''true'', ''y'']
                then 1 else 0))
      | None \<Rightarrow> (if s \<in> set selected then 1 else 0))"

definition assign :: "('k \<rightharpoonup> 'v) \<Rightarrow> ('k \<times> 'v) list \<Rightarrow> ('k \<rightharpoonup> 'v)" where
  \<comment> \<open>\<open>d[k] = v\<close> for each pair in turn\<close>
  "assign d kvs = fold (\<lambda>(k, v) m. m(k \<mapsto> v)) kvs d"

definition fill_missing :: "(string \<rightharpoonup> pyval) \<Rightarrow> string list \<Rightarrow> (string \<rightharpoonup> pyval)" where
  "fill_missing row fs =
     fold (\<lambda>f r. (case r f of None \<Rightarrow> r(f \<mapsto> PInt 0) | Some v \<Rightarrow> r)) fs row"

definition build_input_row :: "env \<Rightarrow> (string \<rightharpoonup> pyval) \<Rightarrow> py_error + (string \<rightharpoonup> pyval)" where
  \<comment> \<open>the single row of the data frame, which has the columns \<open>safe_features\<close> only\<close>
  "build_input_row e user_data =
     (let row0 = assign Map.empty (clinical_fields e user_data)
      in (case py_elems (get_default user_data ''Symptoms'' (PList [])) of
            Inl err \<Rightarrow> Inl err
          | Inr selected \<Rightarrow>
              (let row1 = assign row0
                     (map (\<lambda>s. (s, PInt (symptom_flag e user_data selected s))) symptom_columns)
               in (case load_model_package e of
                     Inl err \<Rightarrow> Inl err
                   | Inr pkg \<Rightarrow>
                       (let safe_features = filter (\<lambda>f. f \<noteq> ''Disorder'') (feature_names pkg)
                        in Inr (fill_missing row1 safe_features |` set safe_features))))))"

subsection \<open>The rule layer\<close>

definition VALID_CLASSES :: "string list" where
  "VALID_CLASSES =
     [''Mitochondrial genetic inheritance disorders'',
      ''Multifactorial genetic inheritance disorders'',
      ''Single-gene inheritance diseases'']"

definition mito_syms :: "string list" where
  "mito_syms =
     [''Lactic acidosis'', ''Muscle weakness'', ''Developmental delay'', ''Seizures'',
      ''Exercise intolerance'', ''Eye movement abnormalities'', ''Neuropathy'',
      ''Movement disorders'', ''Difficulty swallowing'', ''Poor coordination'', ''Tremors'']"

definition sg_syms :: "string list" where
  "sg_syms =
     [''Cough'', ''Wheezing'', ''Frequent lung infections'', ''Poor growth'', ''Salty skin'',
      ''Shortness of breath'', ''Digestive problems'', ''Clubbing of fingers'', ''Nasal polyps'']"

definition mf_syms :: "string list" where
  "mf_syms =
     [''High blood sugar'', ''Excessive thirst'', ''Frequent urination'', ''Blurred vision'',
      ''Slow healing'', ''Weight loss'', ''Increased hunger'', ''Fatigue'', ''Joint pain'',
      ''Heart problems'']"

definition flag :: "env \<Rightarrow> (string \<rightharpoonup> pyval) \<Rightarrow> string \<Rightarrow> py_error + int" where
  \<comment> \<open>\<open>g(name)\<close>\<close>
  "flag e row_dict name = py_int e (get_default row_dict name (PInt 0))"

fun count_flags :: "env \<Rightarrow> (string \<rightharpoonup> pyval) \<Rightarrow> string list \<Rightarrow> py_error + int" where
  \<comment> \<open>\<open>sum(g(s) for s in syms)\<close>\<close>
  "count_flags e row_dict [] = Inr 0"
| "count_flags e row_dict (s # ss) =
     (case flag e row_dict s of
        Inl err \<Rightarrow> Inl err
      | Inr n \<Rightarrow> (case count_flags e row_dict ss of Inl err \<Rightarrow> Inl err | Inr m \<Rightarrow> Inr (n + m)))"

definition says_yes :: "env \<Rightarrow> (string \<rightharpoonup> pyval) \<Rightarrow> string \<Rightarrow> bool" where
  \<comment> \<open>\<open>str(row_dict.get(key, "No")).lower().startswith("y")\<close>\<close>
  "says_yes e row_dict key =
     starts_with (py_lower (py_str e (get_default row_dict key (PStr ''No'')))) ''y''"

definition maternal_yes :: "env \<Rightarrow> (string \<rightharpoonup> pyval) \<Rightarrow> bool" where
  "maternal_yes e row_dict =
     (says_yes e row_dict ''Genes in mother's side'' \<or> says_yes e row_dict ''Maternal gene'')"

definition paternal_yes :: "env \<Rightarrow> (string \<rightharpoonup> pyval) \<Rightarrow> bool" where
  "paternal_yes e row_dict =
     (says_yes e row_dict ''Inherited from father'' \<or> says_yes e row_dict ''Paternal gene'')"

definition class_index :: "string list \<Rightarrow> string \<rightharpoonup> nat" where
  \<comment> \<open>\<open>idx = {c: i for i, c in enumerate(class_names)}\<close>\<close>
  "class_index class_names = assign Map.empty (zip class_names [0..<length class_names])"

definition force :: "rat list \<Rightarrow> string list \<Rightarrow> string \<Rightarrow> py_error + rat list" where
  \<comment> \<open>\<open>p[:] = 0.05; p[idx[c]] = 0.90\<close>\<close>
  "force p class_names c =
     (case class_index class_names c of
        None \<Rightarrow> Inl KeyError
      | Some i \<Rightarrow> (if i < length p then Inr ((replicate (length p) (5 / 100))[i := 90 / 100])
                   else Inl IndexError))"

definition apply_domain_rules ::
  "env \<Rightarrow> (string \<rightharpoonup> pyval) \<Rightarrow> rat list \<Rightarrow> string list \<Rightarrow> py_error + rat list" where
  "apply_domain_rules e row_dict base_probs class_names =
     (case count_flags e row_dict mito_syms of
        Inl err \<Rightarrow> Inl err
      | Inr mito_count \<Rightarrow>
     (case count_flags e row_dict sg_syms of
        Inl err \<Rightarrow> Inl err
      | Inr sg_count \<Rightarrow>
     (case count_flags e row_dict mf_syms of
        Inl err \<Rightarrow> Inl err
      | Inr mf_count \<Rightarrow>
          (if maternal_yes e row_dict \<and> 3 \<le> mito_count
           then force base_probs class_names ''Mitochondrial genetic inheritance disorders''
           else if paternal_yes e row_dict \<and> 3 \<le> sg_count
           then force base_probs class_names ''Single-gene inheritance diseases''
           else if 4 \<le> mf_count
           then force base_probs class_names ''Multifactorial genetic inheritance disorders''
           else if mito_count = 0 \<and> sg_count = 0 \<and> mf_count = 0
           then (if class_names = [] then Inl ZeroDivisionError
                 else Inr (replicate (length base_probs) (1 / of_nat (length class_names))))
           else Inr base_probs))))"

fun argmax_from :: "nat \<Rightarrow> rat \<Rightarrow> nat \<Rightarrow> rat list \<Rightarrow> nat" where
  \<comment> \<open>best index, best value, index of the next element, the elements still to see\<close>
  "argmax_from bi bv i [] = bi"
| "argmax_from bi bv i (x # xs) =
     (if bv < x then argmax_from i x (Suc i) xs else argmax_from bi bv (Suc i) xs)"

definition argmax :: "rat list \<Rightarrow> py_error + nat" where
  \<comment> \<open>\<open>np.argmax\<close>: the first index of the largest element\<close>
  "argmax xs = (case xs of [] \<Rightarrow> Inl ValueError | x # ys \<Rightarrow> Inr (argmax_from 0 x 1 ys))"

definition near_uniform :: "rat list \<Rightarrow> string list \<Rightarrow> bool" where
  \<comment> \<open>\<open>all(abs(p - (1.0 / len(class_names))) < 0.05 for p in adj_probs)\<close>\<close>
  "near_uniform adj_probs class_names =
     list_all (\<lambda>p. \<bar>p - 1 / of_nat (length class_names)\<bar> < 5 / 100) adj_probs"

definition predict_disorder ::
  "env \<Rightarrow> (string \<rightharpoonup> pyval) \<Rightarrow> py_error + (string \<times> rat \<times> (string \<rightharpoonup> rat))" where
  "predict_disorder e user_data =
     (case load_model_package e of
        Inl err \<Rightarrow> Inl err
      | Inr pkg \<Rightarrow>
     (let class_names = classes pkg
      in (case build_input_row e user_data of
            Inl err \<Rightarrow> Inl err
          | Inr X \<Rightarrow>
         (case predict_proba pkg X of
            Inl err \<Rightarrow> Inl err
          | Inr base_probs \<Rightarrow>
         (case apply_domain_rules e X base_probs class_names of
            Inl err \<Rightarrow> Inl err
          | Inr adj_probs \<Rightarrow>
         (case argmax adj_probs of
            Inl err \<Rightarrow> Inl err
          | Inr top_idx \<Rightarrow>
              (if length class_names \<le> top_idx then Inl IndexError
               else if length adj_probs < length class_names then Inl IndexError
               else (let prob_map = assign Map.empty (zip class_names adj_probs)
                     in if near_uniform adj_probs class_names
                        then Inr (''No Disorder / Low Risk'', 0, prob_map)
                        else Inr (class_names ! top_idx, adj_probs ! top_idx, prob_map)))))))))"

section \<open>The final prediction and the conversation step (chatbot_flow.py)\<close>

definition map_answers_to_model_features ::
  "chat_state \<Rightarrow> py_error + (string \<rightharpoonup> pyval)" where
  "map_answers_to_model_features s =
     (let a0 = answers s;
          a1 = a0(''age'' \<mapsto> get_default a0 ''age'' (get_default a0 ''Patient Age'' (PStr [])));
          a2 = a1(''sex'' \<mapsto> get_default a1 ''sex'' (get_default a1 ''Gender'' (PStr [])));
          a3 = a2(''family_history'' \<mapsto>
                    get_default a2 ''family_history'' (get_default a2 ''Family History'' (PStr [])))
      in (case py_elems (get_default a3 ''Symptoms'' (PList [])) of
            Inl err \<Rightarrow> Inl err
          | Inr selected \<Rightarrow>
              Inr (fold (\<lambda>c a. (case a c of
                                  None \<Rightarrow> a(c \<mapsto> PInt (if c \<in> set selected then 1 else 0))
                                | Some v \<Rightarrow> a))
                        symptom_columns a3)))"

definition generate_custom_pdf_report :: "env \<Rightarrow> (string \<rightharpoonup> pyval) \<Rightarrow> py_error + string" where
  "generate_custom_pdf_report e user_data =
     (case predict_disorder e user_data of
        Inl err \<Rightarrow> Inl err
      | Inr (pred_label, conf, prob_map) \<Rightarrow> write_report e user_data pred_label conf prob_map)"

definition report_try_block :: "env \<Rightarrow> (string \<rightharpoonup> pyval) \<Rightarrow> py_error + string" where
  \<comment> \<open>the \<open>try\<close> block of \<open>_generate_and_store_report\<close>: the path it has stored when it
      ends, or the exception it raises\<close>
  "report_try_block e mapped_data =
     (case generate_custom_pdf_report e mapped_data of
        Inl err \<Rightarrow> Inl err
      | Inr path \<Rightarrow>
          (case session_user_id e of
             Inl err \<Rightarrow> Inl err
           | Inr has_user \<Rightarrow>
               (if has_user
                then (case db_save_report e path mapped_data of
                        Inl err \<Rightarrow> Inl err
                      | Inr u \<Rightarrow> Inr path)
                else Inr path)))"

definition generate_and_store_report :: "env \<Rightarrow> chat_state \<Rightarrow> (string \<rightharpoonup> pyval) \<Rightarrow> chat_state" where
  \<comment> \<open>the handler of every exception sets \<open>report_pdf_path\<close> to \<open>None\<close>\<close>
  "generate_and_store_report e s mapped_data =
     (case report_try_block e mapped_data of
        Inr path \<Rightarrow> s\<lparr>report_pdf_path := Some path\<rparr>
      | Inl err \<Rightarrow> s\<lparr>report_pdf_path := None\<rparr>)"

definition sq :: char where "sq = CHR 0x27"
definition dq :: char where "dq = CHR 0x22"
definition nl :: char where "nl = CHR 0x0A"

definition download_markup :: "string \<Rightarrow> string" where
  \<comment> \<open>the link to the report file \<open>name\<close>\<close>
  "download_markup name = concat
    [[nl], ''            <span>'', [nl], ''            <a href='', [sq], ''/api/chat/report/'',
      name, [sq], '' target='', [sq], ''_blank'', [sq], '' '', [nl], ''               style='',
      [sq], ''display:inline-block;padding:10px 20px;'', [nl],
      ''                      background: linear-gradient(90deg, #667eea 0%, #764ba2 100%);'',
      [nl], ''                      color:#fff;'', [nl],
      ''                      border-radius:29px;'', [nl],
      ''                      text-decoration:none;'', [nl],
      ''                      margin-top:10px;'', [nl],
      ''                      font-weight:600;'', [nl],
      ''                      transition: 0.3s ease;'', [nl], ''                      '', [sq],
      [nl], ''               onmouseover='', [dq], ''this.style.background='', [sq],
      ''linear-gradient(90deg, #764ba2 0%, #667eea 100%)'', [sq], ''; this.style.transform='',
      [sq], ''translateY(-2px) scale(1.04)'', [sq], '';'', [dq], [nl],
      ''               onmouseout='', [dq], ''this.style.background='', [sq],
      ''linear-gradient(90deg, #667eea 0%, #764ba2 100%)'', [sq], ''; this.style.transform='',
      [sq], ''translateY(0) scale(1)'', [sq], '';'', [dq], [nl],
      ''            >Download PDF Report</a>'', [nl], ''        </span>'', [nl],
      ''        <p style='', [sq], ''margin-top:8px;'', [sq],
      ''>This report is for educational purposes only and should be reviewed with healthcare professionals.</p>'',
      [nl], ''        '']"

definition report_download_message :: "env \<Rightarrow> chat_state \<Rightarrow> string" where
  "report_download_message e s =
     (case report_pdf_path s of
        Some path \<Rightarrow>
          (if path \<noteq> [] \<and> path_exists e path then download_markup (basename e path)
           else ''<p>Report not available.</p>'')
      | None \<Rightarrow> ''<p>Report not available.</p>'')"

definition prediction_summary :: "env \<Rightarrow> string \<Rightarrow> rat \<Rightarrow> string" where
  "prediction_summary e pred conf =
     ''Predicted Genetic Disorder Category: '' @ pred @ '' (Confidence: ''
       @ format_percent e conf @ ''%)<br>''"

definition final_prediction_step :: "env \<Rightarrow> chat_state \<Rightarrow> chat_state \<times> (py_error + string)" where
  \<comment> \<open>\<open>_final_prediction\<close>: the state it leaves, and the text it returns or the
      exception it raises\<close>
  "final_prediction_step e s =
     (let s1 = s\<lparr>final_prediction := None, report_pdf_path := None\<rparr>
      in (case map_answers_to_model_features s1 of
            Inl err \<Rightarrow> (s1, Inl err)
          | Inr mapped_data \<Rightarrow>
              (case predict_disorder e mapped_data of
                 Inl err \<Rightarrow> (s1, Inl err)
               | Inr (pred, conf, pm) \<Rightarrow>
                   (let s2 = s1\<lparr>final_prediction := Some (prediction_summary e pred conf)\<rparr>;
                        s3 = generate_and_store_report e s2 mapped_data
                    in (s3, Inr (prediction_summary e pred conf
                                  @ report_download_message e s3))))))"

definition handle_input :: "env \<Rightarrow> chat_state \<Rightarrow> string \<Rightarrow> chat_state \<times> (py_error + response)" where
  "handle_input e s message =
     (if symptom_selection_pending s
      then (case select_symptoms s message of
              Inr selected_symptoms \<Rightarrow>
                (s\<lparr>answers := (answers s)(''Symptoms'' \<mapsto> PList selected_symptoms),
                   symptom_selection_pending := False, step := Num 6\<rparr>,
                 Inr (Text ''Thank you. Did you experience trouble breathing at birth? (Birth asphyxia) (Yes / No / Not sure)''))
            | Inl err \<Rightarrow>
                (s, Inr (Text ''Invalid input. Please enter numbers separated by commas.'')))
      else (case step s of
              Num k \<Rightarrow>
                (case steps_map k of
                   Some (key, mapper, next_prompt) \<Rightarrow>
                     (case mapper message of
                        Inl err \<Rightarrow> (s, Inl err)
                      | Inr val \<Rightarrow>
                          (let s1 = s\<lparr>answers := store_answer key val (answers s)\<rparr>
                           in if next_prompt = ''symptom_selection''
                              then (s1\<lparr>symptom_list := Some symptom_columns,
                                       symptom_selection_pending := True\<rparr>,
                                    Inr (SymptomSelection ''Please select the symptoms you have:''
                                           symptom_columns))
                              else if next_prompt = ''Final step''
                              then (s1\<lparr>step := Name ''final_waiting''\<rparr>,
                                    Inr (WaitAndPredict ''Please wait... Your genetic risk assessment report is being generated.''))
                              else (s1\<lparr>step := Num (k + 1)\<rparr>, Inr (Text next_prompt))))
                 | None \<Rightarrow> (s, Inr (Text ''Step not found.'')))
            | Name n \<Rightarrow>
                (if n = ''final_waiting''
                 then (case final_prediction_step e s of
                         (s', Inl err) \<Rightarrow> (s', Inl err)
                       | (s', Inr final_result) \<Rightarrow>
                           (s'\<lparr>step := Name ''completed''\<rparr>,
                            Inr (FinalResult (''Your comprehensive genetic risk assessment report has been generated.<br>'' @ final_result))))
                 else (s, Inr (Text ''Step not found.'')))))"

definition is_analysis_complete :: "chat_state \<Rightarrow> bool" where
  "is_analysis_complete s = (final_prediction s \<noteq> None)"

definition get_report_path :: "chat_state \<Rightarrow> string option" where
  "get_report_path s = report_pdf_path s"

section \<open>A concrete environment\<close>

text \<open>
  An environment to evaluate the definitions in: numbers convert to themselves and
  nothing else converts, the classifier knows the three reference classes and a few
  features and always answers with the same scores, and the report is written.
\<close>

definition plain_numeric :: "pyval \<Rightarrow> py_error + pyfloat" where
  "plain_numeric v = (case v of
       PInt i \<Rightarrow> Inr (Fin (of_int i))
     | PFloat x \<Rightarrow> Inr x
     | _ \<Rightarrow> Inl ValueError)"

definition sample_package :: model_package where
  "sample_package =
     \<lparr>predict_proba = (\<lambda>X. Inr [2 / 10, 5 / 10, 3 / 10]),
      classes = VALID_CLASSES,
      feature_names =
        [''Patient Age'', ''Birth asphyxia'', ''Genes in mother's side'', ''Maternal gene'',
         ''Lactic acidosis'', ''Muscle weakness'', ''Seizures'', ''Cough'', ''Fatigue'',
         ''Disorder'']\<rparr>"

definition sample_env :: env where
  "sample_env =
     \<lparr>load_model_package = Inr sample_package,
      str_of = (\<lambda>v. ''?''),
      to_numeric = plain_numeric,
      int_of_str = (\<lambda>s. Inl ValueError),
      format_percent = (\<lambda>c. ''--''),
      write_report = (\<lambda>user_data pred_label conf prob_map. Inr ''/exports/report.pdf''),
      session_user_id = Inr False,
      db_save_report = (\<lambda>path user_data. Inr ()),
      basename = (\<lambda>p. ''report.pdf''),
      path_exists = (\<lambda>p. True)\<rparr>"


fun run :: "env \<Rightarrow> chat_state \<Rightarrow> string list \<Rightarrow> chat_state" where
  \<comment> \<open>the state after the messages have been handled in turn, each call returning or raising\<close>
  "run e s [] = s"
| "run e s (m # ms) = run e (fst (handle_input e s m)) ms"

section \<open>Inputs and predicates of the proofs\<close>

definition at_step :: "int \<Rightarrow> chat_state" where
  \<comment> \<open>a fresh session moved to step \<open>k\<close>\<close>
  "at_step k = (fst reset_session)\<lparr>step := Num k\<rparr>"

definition picking :: "string list \<Rightarrow> chat_state" where
  \<comment> \<open>a session that waits for the symptom selection over the catalog \<open>cat\<close>\<close>
  "picking cat =
     (fst reset_session)\<lparr>step := Num 4, symptom_selection_pending := True,
                          symptom_list := Some cat\<rparr>"

definition row_value ::
  "env \<Rightarrow> (string \<rightharpoonup> pyval) \<Rightarrow> string list \<Rightarrow> string \<Rightarrow> pyval" where
  \<comment> \<open>what the assembler puts into the column \<open>k\<close>\<close>
  "row_value e user_data selected k =
     (if k \<in> set symptom_columns then PInt (symptom_flag e user_data selected k)
      else (case map_of (rev (clinical_fields e user_data)) k of
              Some v \<Rightarrow> v | None \<Rightarrow> PInt 0))"

definition flag_int :: "(string \<rightharpoonup> pyval) \<Rightarrow> string \<Rightarrow> int" where
  \<comment> \<open>the integer in a symptom column; an absent column counts 0\<close>
  "flag_int X s = (case X s of Some (PInt n) \<Rightarrow> n | _ \<Rightarrow> 0)"

definition maternal_case :: "string \<rightharpoonup> pyval" where
  \<comment> \<open>a maternal gene and three symptoms of the mitochondrial cluster\<close>
  "maternal_case =
     [''Maternal gene'' \<mapsto> PStr ''yes'',
      ''Symptoms'' \<mapsto> PList [''Lactic acidosis'', ''Muscle weakness'', ''Seizures'']]"

definition tremor_package :: model_package where
  \<comment> \<open>the sample classifier with the feature \<open>Tremors\<close> added\<close>
  "tremor_package = sample_package\<lparr>feature_names := ''Tremors'' # feature_names sample_package\<rparr>"

definition tremor_env :: env where
  "tremor_env = sample_env\<lparr>load_model_package := Inr tremor_package\<rparr>"

definition negative_flag_case :: "string \<rightharpoonup> pyval" where
  \<comment> \<open>a maternal gene, three symptoms of the mitochondrial cluster selected, and the
      flag of a fourth given as -1\<close>
  "negative_flag_case = maternal_case(''Tremors'' \<mapsto> PInt (- 1))"

definition built_row :: "env \<Rightarrow> model_package \<Rightarrow> (string \<rightharpoonup> pyval) \<Rightarrow> string list
    \<Rightarrow> (string \<rightharpoonup> pyval)" where
  "built_row e pkg user_data selected =
     (\<lambda>k. if k \<in> set (feature_names pkg) \<and> k \<noteq> ''Disorder''
          then Some (row_value e user_data selected k) else None)"

definition no_symptom_case :: "string \<rightharpoonup> pyval" where
  \<comment> \<open>a maternal gene and no symptom selected\<close>
  "no_symptom_case = [''Maternal gene'' \<mapsto> PStr ''yes'', ''Symptoms'' \<mapsto> PList []]"


definition huge_number :: string where
  \<comment> \<open>the numeral of 10 to the power 400: a one followed by 400 zeros\<close>
  "huge_number = CHR ''1'' # replicate 400 (CHR ''0'')"

definition valid_selection :: "string \<Rightarrow> bool" where
  \<comment> \<open>every token of digits is a numeral that \<open>int()\<close> reads, so that the selection is
      taken\<close>
  "valid_selection m =
     list_all is_numeral (filter isdigit_str (map py_strip (split_on (CHR '','') m)))"

definition valid_script :: "string list \<Rightarrow> bool" where
  \<comment> \<open>23 answers: steps 0 to 4, the symptom selection, steps 6 to 22; the selection is
      taken and the abortion count of step 12 is read without an exception\<close>
  "valid_script ms =
     (length ms = 23 \<and> valid_selection (ms ! 5) \<and> \<not> isl (abortion_count (ms ! 12)))"

definition in_phase :: "int \<Rightarrow> bool \<Rightarrow> chat_state \<Rightarrow> bool" where
  \<comment> \<open>at step \<open>k\<close>, waiting for the symptom selection or not, with no prediction yet\<close>
  "in_phase k p s =
     (step s = Num k \<and> symptom_selection_pending s = p \<and> final_prediction s = None
      \<and> (p \<longrightarrow> symptom_list s \<noteq> None)
      \<and> (6 \<le> k \<longrightarrow> (\<exists>sel. answers s ''Symptoms'' = Some (PList sel))))"

definition sample_script :: "string list" where
  "sample_script =
     [''my name is Ann Lee'', ''34'', ''f'', ''no'', ''none'', ''44, 37, 39, 2'',
      ''no'', ''no'', ''no'', ''no'', ''30'', ''32'', ''0'', ''yes'', ''yes'', ''no'',
      ''none'', ''none'', ''0'', ''no'', ''ok'', ''40'', ''80'']"

section \<open>Evaluation lemmas\<close>

lemmas char_defs =
  ord_def is_space_def is_decimal_def is_digit_def is_upper_def is_lower_def is_letter_def
  is_word_def lower_char_def char_of_eq_iff

lemmas string_defs = py_lower_def py_strip_def isdigit_str_def dec_value_def

lemma extract_numeric_zero: "extract_numeric ''0'' = Fin 0"
  by (simp add: extract_numeric_def num_body_def float_of_match_def float_of_rat_def
      char_defs string_defs)

lemma extract_numeric_no_number: "extract_numeric ''no'' = Fin 0"
  by (simp add: extract_numeric_def num_body_def char_defs)

section \<open>The stored cell counts\<close>

text \<open>
  C10. At steps 18 and 19 the stored blood cell count and white blood cell count are
  never zero: the step stores a float that is not zero, and whenever the number extracted
  from the answer is zero (the answers \<open>0\<close> and \<open>no\<close> are such) it stores the
  default, 4.8 or 7.0.
\<close>

theorem stored_cell_counts_never_zero:
  assumes "\<not> symptom_selection_pending s"
  shows "(step s = Num 18 \<longrightarrow>
           (\<exists>v. answers (fst (handle_input e s x)) ''Blood cell count (mcL)'' = Some (PFloat v)
               \<and> v \<noteq> Fin 0 \<and> (extract_numeric x = Fin 0 \<longrightarrow> v = Fin (48 / 10))))
       \<and> (step s = Num 19 \<longrightarrow>
           (\<exists>v. answers (fst (handle_input e s x))
                   ''White Blood cell count (thousand per microliter)'' = Some (PFloat v)
               \<and> v \<noteq> Fin 0 \<and> (extract_numeric x = Fin 0 \<longrightarrow> v = Fin 7)))
       \<and> extract_numeric ''0'' = Fin 0 \<and> extract_numeric ''no'' = Fin 0"
  using assms
  by (simp add: handle_input_def steps_map_def steps_table_def store_answer_def
      count_or_default_def extract_numeric_zero extract_numeric_no_number)

theorem stored_cell_counts_never_zero_witness:
  "\<not> symptom_selection_pending (at_step 18) \<and> step (at_step 18) = Num 18
   \<and> extract_numeric ''0'' = Fin 0
   \<and> answers (fst (handle_input sample_env (at_step 18) ''0'')) ''Blood cell count (mcL)''
       = Some (PFloat (Fin (48 / 10)))"
  using stored_cell_counts_never_zero [of "at_step 18" sample_env "''0''"]
  by (auto simp add: at_step_def reset_session_def)

section \<open>The gene normalizer\<close>

text \<open>
  C6, as the code has it. The maternal/paternal gene normalizer answers \<open>No\<close> exactly
  on the autopsy negative tokens other than \<open>not applicable\<close> and on \<open>not detected\<close>,
  \<open>null\<close>, the empty string and \<open>not sure\<close>, and \<open>Yes\<close> on every other input; the
  assembler's inline normalizer agrees with it on every string, and the input
  \<open>not applicable\<close> maps to \<open>Yes\<close>.
\<close>

theorem gene_normalizer_tokens:
  "map_maternal_paternal_gene t =
     (if py_lower (py_strip t)
           \<in> (set autopsy_negative - {''not applicable''})
               \<union> {''not detected'', ''null'', [], ''not sure''}
      then ''No'' else ''Yes'')
   \<and> gene_flag e (PStr t) = map_maternal_paternal_gene t
   \<and> map_maternal_paternal_gene ''not applicable'' = ''Yes''"
proof -
  have tokens: "set gene_negative
      = (set autopsy_negative - {''not applicable''})
          \<union> {''not detected'', ''null'', [], ''not sure''}"
    by (auto simp add: gene_negative_def autopsy_negative_def)
  have "map_maternal_paternal_gene t =
      (if py_lower (py_strip t) \<in> set gene_negative then ''No'' else ''Yes'')"
    by (simp add: map_maternal_paternal_gene_def)
  then have main: "map_maternal_paternal_gene t =
     (if py_lower (py_strip t)
           \<in> (set autopsy_negative - {''not applicable''})
               \<union> {''not detected'', ''null'', [], ''not sure''}
      then ''No'' else ''Yes'')"
    unfolding tokens .
  have "py_lower (py_strip ''not applicable'') = ''not applicable''"
    by (simp add: char_defs string_defs)
  then have na: "map_maternal_paternal_gene ''not applicable'' = ''Yes''"
    by (simp add: map_maternal_paternal_gene_def gene_negative_def)
  have inline: "gene_flag e (PStr t) = map_maternal_paternal_gene t"
    by (simp add: gene_flag_def map_maternal_paternal_gene_def gene_negative_def py_str_def)
  show ?thesis
    by (rule conjI [OF main conjI [OF inline na]])
qed

theorem gene_normalizer_tokens_witness:
  "map_maternal_paternal_gene '' N/A '' = ''No''
   \<and> gene_flag sample_env (PStr '' N/A '') = ''No''
   \<and> map_maternal_paternal_gene ''BRCA1'' = ''Yes''"
proof -
  have a: "py_lower (py_strip '' N/A '') = ''n/a''"
    by (simp add: char_defs string_defs)
  have b: "py_lower (py_strip ''BRCA1'') = ''brca1''"
    by (simp add: char_defs string_defs)
  show ?thesis
    using gene_normalizer_tokens [of "'' N/A ''" sample_env]
      gene_normalizer_tokens [of "''BRCA1''" sample_env]
    by (simp add: a b autopsy_negative_def)
qed

theorem gene_not_applicable_counterexample:
  "py_lower (py_strip ''not applicable'') \<in> set autopsy_negative
   \<and> map_maternal_paternal_gene ''not applicable'' \<noteq> ''No''"
  by (simp add: map_maternal_paternal_gene_def gene_negative_def autopsy_negative_def
      char_defs string_defs)

section \<open>Symptom selection\<close>

lemma parse_indices_error:
  "(\<exists>err. parse_indices ts = Inl err) \<longleftrightarrow> list_ex (\<lambda>t. \<not> is_numeral t) ts"
  by (induction ts) (auto simp add: int_of_digits_def split: sum.splits)

lemma reprompt_iff:
  assumes "symptom_selection_pending s" and "symptom_list s = Some cat"
  shows "handle_input e s message
           = (s, Inr (Text ''Invalid input. Please enter numbers separated by commas.''))
         \<longleftrightarrow> list_ex (\<lambda>t. \<not> is_numeral t)
               (filter isdigit_str (map py_strip (split_on (CHR '','') message)))"
proof -
  let ?ts = "filter isdigit_str (map py_strip (split_on (CHR '','') message))"
  show ?thesis
  proof (cases "parse_indices ?ts")
    case (Inl err)
    then have "list_ex (\<lambda>t. \<not> is_numeral t) ?ts"
      using parse_indices_error [of ?ts] by blast
    with Inl assms show ?thesis
      by (simp add: handle_input_def select_symptoms_def)
  next
    case (Inr idx)
    then have "\<not> list_ex (\<lambda>t. \<not> is_numeral t) ?ts"
      using parse_indices_error [of ?ts] by auto
    with Inr assms show ?thesis
      by (simp add: handle_input_def select_symptoms_def)
  qed
qed

text \<open>
  C1, at the failing input. A message with no digit token (\<open>abc\<close> is one) selects
  nothing, and the step goes on all the same: the empty selection is stored under
  \<open>Symptoms\<close>, the flag is cleared, the step becomes 6 and the answer is the prompt of
  step 6, not the re-prompt.
\<close>

theorem empty_selection_advances:
  assumes "symptom_selection_pending s"
    and "filter isdigit_str (map py_strip (split_on (CHR '','') message)) = []"
  shows "handle_input e s message =
           (s\<lparr>answers := (answers s)(''Symptoms'' \<mapsto> PList []),
              symptom_selection_pending := False, step := Num 6\<rparr>,
            Inr (Text ''Thank you. Did you experience trouble breathing at birth? (Birth asphyxia) (Yes / No / Not sure)''))"
  using assms
  by (simp add: handle_input_def select_symptoms_def split: option.splits)

theorem empty_selection_advances_witness:
  "symptom_selection_pending (picking symptom_columns)
   \<and> filter isdigit_str (map py_strip (split_on (CHR '','') ''abc'')) = []
   \<and> step (fst (handle_input sample_env (picking symptom_columns) ''abc'')) = Num 6
   \<and> \<not> symptom_selection_pending (fst (handle_input sample_env (picking symptom_columns) ''abc''))
   \<and> answers (fst (handle_input sample_env (picking symptom_columns) ''abc'')) ''Symptoms''
       = Some (PList [])
   \<and> snd (handle_input sample_env (picking symptom_columns) ''abc'')
       \<noteq> Inr (Text ''Invalid input. Please enter numbers separated by commas.'')"
proof -
  have p: "symptom_selection_pending (picking symptom_columns)"
    by (simp add: picking_def reset_session_def)
  have t: "filter isdigit_str (map py_strip (split_on (CHR '','') ''abc'')) = []"
    by (simp add: char_defs string_defs)
  show ?thesis
    using p t empty_selection_advances [OF p t, of sample_env] by simp
qed

lemma length_symptom_columns: "length symptom_columns = 55"
  by (simp add: symptom_columns_def)

lemma tokens_1_3_99:
  "parse_indices (filter isdigit_str (map py_strip (split_on (CHR '','') ''1, 3, 99'')))
     = Inr [0, 2, 98]"
  by (simp add: int_of_digits_def is_numeral_def max_str_digits_def char_defs string_defs)

text \<open>
  C8, as the code has it. For every catalog of at least 3 and fewer than 99 symptoms
  (the catalog of the conversation has 55), the selection \<open>1, 3, 99\<close> stores exactly
  the first and the third symptom under \<open>Symptoms\<close>, clears the flag and sets the step
  to 6. In a catalog of 99 symptoms or more the pick 99 is in range and is stored too.
\<close>

theorem selection_1_3_99:
  assumes "symptom_selection_pending s" and "symptom_list s = Some cat"
    and "3 \<le> length cat" and "length cat < 99"
  shows "handle_input e s ''1, 3, 99'' =
           (s\<lparr>answers := (answers s)(''Symptoms'' \<mapsto> PList [cat ! 0, cat ! 2]),
              symptom_selection_pending := False, step := Num 6\<rparr>,
            Inr (Text ''Thank you. Did you experience trouble breathing at birth? (Birth asphyxia) (Yes / No / Not sure)''))"
proof -
  have "select_symptoms s ''1, 3, 99'' = Inr [cat ! 0, cat ! 2]"
    unfolding select_symptoms_def tokens_1_3_99 using assms(2-4) by auto
  with assms(1) show ?thesis
    by (simp add: handle_input_def)
qed

theorem selection_1_3_99_witness:
  "symptom_selection_pending (picking symptom_columns)
   \<and> symptom_list (picking symptom_columns) = Some symptom_columns
   \<and> 3 \<le> length symptom_columns \<and> length symptom_columns < 99
   \<and> answers (fst (handle_input sample_env (picking symptom_columns) ''1, 3, 99'')) ''Symptoms''
       = Some (PList [''Cough'', ''Frequent lung infections''])
   \<and> step (fst (handle_input sample_env (picking symptom_columns) ''1, 3, 99'')) = Num 6"
proof -
  have a: "symptom_selection_pending (picking symptom_columns)"
    and b: "symptom_list (picking symptom_columns) = Some symptom_columns"
    by (simp_all add: picking_def reset_session_def)
  have c: "3 \<le> length symptom_columns" and d: "length symptom_columns < 99"
    by (simp_all add: symptom_columns_def)
  have e: "symptom_columns ! 0 = ''Cough''"
    and f: "symptom_columns ! 2 = ''Frequent lung infections''"
    by (simp_all add: symptom_columns_def)
  show ?thesis
    using a b c d selection_1_3_99 [OF a b c d, of sample_env] by (simp add: e f)
qed

theorem selection_1_3_99_counterexample:
  "3 \<le> length (symptom_columns @ symptom_columns)
   \<and> answers (fst (handle_input sample_env (picking (symptom_columns @ symptom_columns))
                     ''1, 3, 99'')) ''Symptoms''
       = Some (PList [''Cough'', ''Frequent lung infections'', ''Lactic acidosis''])
   \<and> answers (fst (handle_input sample_env (picking (symptom_columns @ symptom_columns))
                     ''1, 3, 99'')) ''Symptoms''
       \<noteq> Some (PList [(symptom_columns @ symptom_columns) ! 0,
                       (symptom_columns @ symptom_columns) ! 2])"
proof -
  have sel: "select_symptoms (picking (symptom_columns @ symptom_columns)) ''1, 3, 99''
          = Inr [''Cough'', ''Frequent lung infections'', ''Lactic acidosis'']"
    unfolding select_symptoms_def tokens_1_3_99
    by (simp add: picking_def reset_session_def symptom_columns_def)
  have pend: "symptom_selection_pending (picking (symptom_columns @ symptom_columns))"
    by (simp add: picking_def reset_session_def)
  have stored: "answers (fst (handle_input sample_env
                   (picking (symptom_columns @ symptom_columns)) ''1, 3, 99'')) ''Symptoms''
       = Some (PList [''Cough'', ''Frequent lung infections'', ''Lactic acidosis''])"
    using sel pend by (simp add: handle_input_def)
  show ?thesis
    unfolding stored by (simp add: length_symptom_columns)
qed

section \<open>The assembled row\<close>

lemma assign_apply:
  "assign d kvs k = (case map_of (rev kvs) k of Some v \<Rightarrow> Some v | None \<Rightarrow> d k)"
proof (induction kvs arbitrary: d)
  case Nil
  then show ?case by (simp add: assign_def)
next
  case (Cons p kvs)
  obtain a b where p: "p = (a, b)" by (cases p)
  have "assign d (p # kvs) k = assign (d(a \<mapsto> b)) kvs k"
    by (simp add: assign_def p)
  also have "\<dots> = (case map_of (rev kvs) k of Some v \<Rightarrow> Some v | None \<Rightarrow> (d(a \<mapsto> b)) k)"
    by (rule Cons.IH)
  finally show ?case
    by (simp add: p map_add_def split: option.splits)
qed

lemma assign_map:
  "assign d (map (\<lambda>s. (s, f s)) xs) k = (if k \<in> set xs then Some (f k) else d k)"
proof (induction xs arbitrary: d)
  case Nil
  then show ?case by (simp add: assign_def)
next
  case (Cons x xs)
  have "assign d (map (\<lambda>s. (s, f s)) (x # xs)) k
          = assign (d(x \<mapsto> f x)) (map (\<lambda>s. (s, f s)) xs) k"
    by (simp add: assign_def)
  then show ?case
    by (simp add: Cons.IH)
qed

lemma fill_missing_apply:
  "fill_missing row fs k =
     (case row k of Some v \<Rightarrow> Some v
      | None \<Rightarrow> if k \<in> set fs then Some (PInt 0) else None)"
proof (induction fs arbitrary: row)
  case Nil
  then show ?case by (simp add: fill_missing_def split: option.splits)
next
  case (Cons f fs)
  have "fill_missing row (f # fs) k
          = fill_missing (case row f of None \<Rightarrow> row(f \<mapsto> PInt 0) | Some v \<Rightarrow> row) fs k"
    by (simp add: fill_missing_def)
  then show ?case
    by (simp add: Cons.IH split: option.splits)
qed

lemma build_input_row_eq:
  assumes "py_elems (get_default user_data ''Symptoms'' (PList [])) = Inr selected"
    and "load_model_package e = Inr pkg"
  shows "build_input_row e user_data =
           Inr (\<lambda>k. if k \<in> set (feature_names pkg) \<and> k \<noteq> ''Disorder''
                    then Some (row_value e user_data selected k) else None)"
proof -
  define safe where "safe = filter (\<lambda>f. f \<noteq> ''Disorder'') (feature_names pkg)"
  define row0 where "row0 = assign Map.empty (clinical_fields e user_data)"
  define row1 where "row1 = assign row0
      (map (\<lambda>s. (s, PInt (symptom_flag e user_data selected s))) symptom_columns)"
  have r0: "row0 k = map_of (rev (clinical_fields e user_data)) k" for k
    unfolding row0_def by (simp add: assign_apply split: option.splits)
  have r1: "row1 k =
          (if k \<in> set symptom_columns then Some (PInt (symptom_flag e user_data selected k))
           else row0 k)" for k
    unfolding row1_def by (rule assign_map)
  have "(fill_missing row1 safe |` set safe) k =
          (if k \<in> set (feature_names pkg) \<and> k \<noteq> ''Disorder''
           then Some (row_value e user_data selected k) else None)" for k
    by (simp add: restrict_map_def fill_missing_apply r1 r0 row_value_def safe_def
        split: option.splits)
  then have "fill_missing row1 safe |` set safe =
          (\<lambda>k. if k \<in> set (feature_names pkg) \<and> k \<noteq> ''Disorder''
                then Some (row_value e user_data selected k) else None)"
    by (rule ext)
  with assms show ?thesis
    by (simp add: build_input_row_def row1_def row0_def safe_def)
qed

lemma build_input_row_cases:
  assumes "build_input_row e user_data = Inr X"
  obtains selected pkg where
    "py_elems (get_default user_data ''Symptoms'' (PList [])) = Inr selected"
    "load_model_package e = Inr pkg"
    "X = (\<lambda>k. if k \<in> set (feature_names pkg) \<and> k \<noteq> ''Disorder''
               then Some (row_value e user_data selected k) else None)"
proof (cases "py_elems (get_default user_data ''Symptoms'' (PList []))")
  case (Inl err)
  with assms show ?thesis by (simp add: build_input_row_def)
next
  case sel: (Inr selected)
  show ?thesis
  proof (cases "load_model_package e")
    case (Inl err)
    with assms sel show ?thesis by (simp add: build_input_row_def)
  next
    case (Inr pkg)
    with assms sel that build_input_row_eq [OF sel Inr] show ?thesis by simp
  qed
qed

lemma not_symptom_key:
  "''age'' \<notin> set symptom_columns" "''sex'' \<notin> set symptom_columns"
  "''family_history'' \<notin> set symptom_columns" "''Symptoms'' \<notin> set symptom_columns"
  by (simp_all add: symptom_columns_def)

lemma not_symptom_column:
  "''Birth asphyxia'' \<notin> set symptom_columns"
  "''Maternal gene'' \<notin> set symptom_columns"
  "''Genes in mother's side'' \<notin> set symptom_columns"
  by (simp_all add: symptom_columns_def)

section \<open>Normalizing twice\<close>

lemma sibling_normalizers_idempotent_yes_no:
  "norm_yes_no_gen e (PStr (map_binary_yes_no t)) ''Yes'' ''No'' ''Not available''
     = map_binary_yes_no t"
  by (simp add: norm_yes_no_gen_def map_binary_yes_no_def py_str_def yes_tokens_def
      no_tokens_def char_defs string_defs)

lemma sibling_normalizers_idempotent_gene:
  "gene_flag e (PStr (map_maternal_paternal_gene t)) = map_maternal_paternal_gene t"
  by (simp add: gene_flag_def map_maternal_paternal_gene_def py_str_def char_defs string_defs)

lemma sibling_normalizers_idempotent_blood_test:
  "norm_blood_test_result e (PStr (map_blood_test_result t)) = map_blood_test_result t"
proof -
  have a: "norm_blood_test_result e (PStr ''normal'') = ''normal''"
    and b: "norm_blood_test_result e (PStr ''slightly abnormal'') = ''slightly abnormal''"
    and c: "norm_blood_test_result e (PStr ''inconclusive'') = ''inconclusive''"
    by (simp_all add: norm_blood_test_result_def py_str_def char_defs string_defs)
  show ?thesis
    by (simp add: map_blood_test_result_def a b c Let_def)
qed

lemma sibling_normalizers_idempotent_resp_rate:
  "norm_resp_rate e (PStr (map_respiratory_rate t)) = map_respiratory_rate t"
proof -
  have a: "norm_resp_rate e (PStr ''Tachypnea'') = ''Tachypnea''"
    and b: "norm_resp_rate e (PStr ''Normal (30-60)'') = ''Normal (30-60)''"
    by (simp_all add: norm_resp_rate_def py_str_def char_defs string_defs)
  show ?thesis
    by (simp add: map_respiratory_rate_def a b Let_def split: option.splits)
qed

lemma sibling_normalizers_idempotent_heart_rate:
  "norm_heart_rate e (PStr (map_heart_rate t)) = map_heart_rate t"
proof -
  have a: "norm_heart_rate e (PStr ''Tachycardia'') = ''Tachycardia''"
    and b: "norm_heart_rate e (PStr ''Normal'') = ''Normal''"
    by (simp_all add: norm_heart_rate_def py_str_def char_defs string_defs)
  show ?thesis
    by (simp add: map_heart_rate_def a b Let_def split: option.splits)
qed

text \<open>
  C2, at the failing input. The answer \<open>no\<close> is captured as \<open>No record\<close>; the
  assembler's normalizer turns \<open>No record\<close> into \<open>Not available\<close>, in every
  environment, and so does the row built from a state that holds the captured value.
\<close>

theorem birth_asphyxia_renormalized:
  "map_birth_asphyxia ''no'' = ''No record''
   \<and> norm_birth_asphyxia e (PStr (map_birth_asphyxia ''no'')) = ''Not available''
   \<and> (case build_input_row sample_env
              [''Birth asphyxia'' \<mapsto> PStr (map_birth_asphyxia ''no'')] of
         Inr X \<Rightarrow> X ''Birth asphyxia'' | Inl err \<Rightarrow> None)
       = Some (PStr ''Not available'')"
proof -
  let ?ud = "[''Birth asphyxia'' \<mapsto> PStr ''No record'']"
  have a: "map_birth_asphyxia ''no'' = ''No record''"
    by (simp add: map_birth_asphyxia_def norm_yes_no_def char_defs string_defs)
  have b: "norm_birth_asphyxia e (PStr ''No record'') = ''Not available''" for e
    by (simp add: norm_birth_asphyxia_def py_str_def yes_tokens_def no_tokens_def
        char_defs string_defs)
  have sel: "py_elems (get_default ?ud ''Symptoms'' (PList [])) = Inr []"
    by (simp add: py_elems_def get_default_def)
  have pkg: "load_model_package sample_env = Inr sample_package"
    by (simp add: sample_env_def)
  have val: "row_value sample_env ?ud [] ''Birth asphyxia'' = PStr ''Not available''"
    by (simp add: row_value_def not_symptom_column clinical_fields_def get_default_def b)
  have c: "(case build_input_row sample_env ?ud of
         Inr X \<Rightarrow> X ''Birth asphyxia'' | Inl err \<Rightarrow> None)
       = Some (PStr ''Not available'')"
    unfolding build_input_row_eq [OF sel pkg]
    by (simp add: val sample_package_def)
  show ?thesis
    using a b c by simp
qed

section \<open>The rule layer on an assembled row\<close>

lemma flag_of_built_row:
  assumes "build_input_row e user_data = Inr X" and "s \<in> set symptom_columns"
  shows "flag e X s = Inr (flag_int X s)"
proof (rule build_input_row_cases [OF assms(1)])
  fix selected pkg
  assume X: "X = (\<lambda>k. if k \<in> set (feature_names pkg) \<and> k \<noteq> ''Disorder''
                  then Some (row_value e user_data selected k) else None)"
  show ?thesis
    using assms(2)
    by (simp add: X flag_def flag_int_def get_default_def row_value_def py_int_def)
qed

lemma count_flags_of_built_row:
  assumes "build_input_row e user_data = Inr X" and "set ss \<subseteq> set symptom_columns"
  shows "count_flags e X ss = Inr (sum_list (map (flag_int X) ss))"
  using assms(2)
proof (induction ss)
  case Nil
  then show ?case by simp
next
  case (Cons s ss)
  then have "flag e X s = Inr (flag_int X s)"
    using flag_of_built_row [OF assms(1)] by simp
  with Cons show ?case by simp
qed

lemma cluster_subsets:
  "set mito_syms \<subseteq> set symptom_columns"
  "set sg_syms \<subseteq> set symptom_columns"
  "set mf_syms \<subseteq> set symptom_columns"
  by (simp_all add: mito_syms_def sg_syms_def mf_syms_def symptom_columns_def)

lemma ones_le_sum:
  assumes "\<forall>s\<in>set ss. 0 \<le> f s"
  shows "int (length (filter (\<lambda>s. f s = 1) ss)) \<le> sum_list (map f ss)"
  using assms by (induction ss) auto

lemma three_classes:
  assumes "distinct cn" and "set cn = set VALID_CLASSES"
  obtains a b c where "cn = [a, b, c]"
proof -
  have "card (set VALID_CLASSES) = 3"
    by (simp add: VALID_CLASSES_def)
  with assms have "length cn = 3"
    using distinct_card [of cn] by simp
  then obtain a b c where "cn = [a, b, c]"
    by (auto simp add: numeral_3_eq_3 length_Suc_conv)
  then show ?thesis by (rule that)
qed

lemma three_probs:
  assumes "length (p :: rat list) = 3"
  obtains x y z where "p = [x, y, z]"
  using assms by (auto simp add: numeral_3_eq_3 length_Suc_conv)

lemma force_three:
  assumes "distinct [a, b, c]" and "m \<in> set [a, b, c]"
  shows "force [x, y, z] [a, b, c] m = Inr (map (\<lambda>k. if k = m then 90 / 100 else 5 / 100) [a, b, c])"
  using assms by (auto simp add: force_def class_index_def assign_def)

lemma predict_after_rules:
  assumes "load_model_package e = Inr pkg"
    and "build_input_row e user_data = Inr X"
    and "predict_proba pkg X = Inr base_probs"
    and "apply_domain_rules e X base_probs (classes pkg) = Inr adj_probs"
    and "argmax adj_probs = Inr top_idx"
    and "top_idx < length (classes pkg)"
    and "length (classes pkg) \<le> length adj_probs"
  shows "predict_disorder e user_data =
           (if near_uniform adj_probs (classes pkg)
            then Inr (''No Disorder / Low Risk'', 0,
                      assign Map.empty (zip (classes pkg) adj_probs))
            else Inr (classes pkg ! top_idx, adj_probs ! top_idx,
                      assign Map.empty (zip (classes pkg) adj_probs)))"
  using assms by (simp add: predict_disorder_def Let_def)

text \<open>
  C3, as the code has it. Let the classifier's classes be the three reference classes,
  in any order, and let it score the assembled row with three probabilities, whatever
  they are. If the row's maternal flag is set, none of its eleven mitochondrial flags is
  negative and at least three of them are 1, then \<open>predict_disorder\<close> returns the
  mitochondrial label with confidence 0.90, and the adjusted distribution has 0.90 at
  the position of the mitochondrial class and 0.05 at the other two: in the reference
  order of the classes it is [0.90, 0.05, 0.05]. The rule counts by summing the flags,
  which are the integers \<open>int(user_data[s])\<close>: a negative flag lowers the count, and
  with three flags at 1 and a fourth at -1 the rule does not fire.
\<close>

theorem maternal_mitochondrial_rule:
  assumes pkg: "load_model_package e = Inr pkg"
    and cls: "distinct (classes pkg)" "set (classes pkg) = set VALID_CLASSES"
    and row: "build_input_row e user_data = Inr X"
    and probs: "predict_proba pkg X = Inr base_probs" "length base_probs = 3"
    and maternal: "maternal_yes e X"
    and nonneg: "\<forall>s\<in>set mito_syms. \<forall>n. X s = Some (PInt n) \<longrightarrow> 0 \<le> n"
    and three: "3 \<le> length (filter (\<lambda>s. X s = Some (PInt 1)) mito_syms)"
  shows "apply_domain_rules e X base_probs (classes pkg) =
           Inr (map (\<lambda>k. if k = ''Mitochondrial genetic inheritance disorders''
                          then 90 / 100 else 5 / 100) (classes pkg))
       \<and> (\<exists>pm. predict_disorder e user_data =
                  Inr (''Mitochondrial genetic inheritance disorders'', 90 / 100, pm)
              \<and> pm ''Mitochondrial genetic inheritance disorders'' = Some (90 / 100)
              \<and> pm ''Multifactorial genetic inheritance disorders'' = Some (5 / 100)
              \<and> pm ''Single-gene inheritance diseases'' = Some (5 / 100))
       \<and> (classes pkg = VALID_CLASSES \<longrightarrow>
            apply_domain_rules e X base_probs (classes pkg)
              = Inr [90 / 100, 5 / 100, 5 / 100])"
proof -
  let ?mito = "''Mitochondrial genetic inheritance disorders''"
  obtain a b c where cn: "classes pkg = [a, b, c]"
    using cls by (rule three_classes)
  obtain x y z where bp: "base_probs = [x, y, z]"
    using probs(2) by (rule three_probs)
  have abc: "distinct [a, b, c]" and "set [a, b, c] = set VALID_CLASSES"
    using cls by (simp_all add: cn)
  then have mem: "?mito \<in> set [a, b, c]"
      and mem2: "''Multifactorial genetic inheritance disorders'' \<in> set [a, b, c]"
      and mem3: "''Single-gene inheritance diseases'' \<in> set [a, b, c]"
    by (simp_all add: VALID_CLASSES_def)
  have same: "(\<lambda>s. X s = Some (PInt 1)) = (\<lambda>s. flag_int X s = 1)"
    by (rule ext) (simp add: flag_int_def split: option.splits pyval.splits)
  have "\<forall>s\<in>set mito_syms. 0 \<le> flag_int X s"
    using nonneg by (simp add: flag_int_def split: option.splits pyval.splits)
  then have "int (length (filter (\<lambda>s. flag_int X s = 1) mito_syms))
               \<le> sum_list (map (flag_int X) mito_syms)"
    by (rule ones_le_sum)
  with three have count: "3 \<le> sum_list (map (flag_int X) mito_syms)"
    by (simp add: same)
  have rules: "apply_domain_rules e X base_probs (classes pkg) =
      Inr (map (\<lambda>k. if k = ?mito then 90 / 100 else 5 / 100) [a, b, c])"
    using maternal count force_three [OF abc mem, of x y z]
    by (simp add: apply_domain_rules_def count_flags_of_built_row [OF row] cluster_subsets cn bp)
  consider "a = ?mito" "b \<noteq> ?mito" "c \<noteq> ?mito"
    | "b = ?mito" "a \<noteq> ?mito" "c \<noteq> ?mito"
    | "c = ?mito" "a \<noteq> ?mito" "b \<noteq> ?mito"
    using abc mem by auto
  then have "\<exists>pm. predict_disorder e user_data = Inr (?mito, 90 / 100, pm)
      \<and> pm = assign Map.empty (zip [a, b, c]
                 (map (\<lambda>k. if k = ?mito then 90 / 100 else 5 / 100) [a, b, c]))"
  proof cases
    case 1
    then show ?thesis
      using predict_after_rules [OF pkg row probs(1) rules, of 0]
      by (simp add: cn argmax_def near_uniform_def)
  next
    case 2
    then show ?thesis
      using predict_after_rules [OF pkg row probs(1) rules, of 1]
      by (simp add: cn argmax_def near_uniform_def)
  next
    case 3
    then show ?thesis
      using predict_after_rules [OF pkg row probs(1) rules, of 2]
      by (simp add: cn argmax_def near_uniform_def)
  qed
  then obtain pm where pred: "predict_disorder e user_data = Inr (?mito, 90 / 100, pm)"
    and pm: "pm = assign Map.empty (zip [a, b, c]
                 (map (\<lambda>k. if k = ?mito then 90 / 100 else 5 / 100) [a, b, c]))"
    by blast
  have pm1: "pm ?mito = Some (90 / 100)"
    using abc mem by (auto simp add: pm assign_def)
  have pm2: "pm ''Multifactorial genetic inheritance disorders'' = Some (5 / 100)"
    using abc mem2 by (auto simp add: pm assign_def)
  have pm3: "pm ''Single-gene inheritance diseases'' = Some (5 / 100)"
    using abc mem3 by (auto simp add: pm assign_def)
  have first: "apply_domain_rules e X base_probs (classes pkg) =
           Inr (map (\<lambda>k. if k = ?mito then 90 / 100 else 5 / 100) (classes pkg))"
    using rules by (simp add: cn)
  have second: "\<exists>pm. predict_disorder e user_data = Inr (?mito, 90 / 100, pm)
              \<and> pm ?mito = Some (90 / 100)
              \<and> pm ''Multifactorial genetic inheritance disorders'' = Some (5 / 100)
              \<and> pm ''Single-gene inheritance diseases'' = Some (5 / 100)"
    using pred pm1 pm2 pm3 by blast
  have third: "classes pkg = VALID_CLASSES \<longrightarrow>
            apply_domain_rules e X base_probs (classes pkg)
              = Inr [90 / 100, 5 / 100, 5 / 100]"
    using first by (auto simp add: VALID_CLASSES_def)
  show ?thesis
    by (rule conjI [OF first conjI [OF second third]])
qed

lemma maternal_case_row:
  "build_input_row sample_env maternal_case =
     Inr (built_row sample_env sample_package maternal_case
            [''Lactic acidosis'', ''Muscle weakness'', ''Seizures''])"
proof -
  have sel: "py_elems (get_default maternal_case ''Symptoms'' (PList []))
               = Inr [''Lactic acidosis'', ''Muscle weakness'', ''Seizures'']"
    by (simp add: py_elems_def get_default_def maternal_case_def)
  have pkg: "load_model_package sample_env = Inr sample_package"
    by (simp add: sample_env_def)
  show ?thesis
    unfolding built_row_def by (rule build_input_row_eq [OF sel pkg])
qed

lemma maternal_case_flags:
  "built_row sample_env sample_package maternal_case
     [''Lactic acidosis'', ''Muscle weakness'', ''Seizures''] s =
   (if s \<in> set [''Lactic acidosis'', ''Muscle weakness'', ''Seizures''] then Some (PInt 1)
    else if s \<in> set [''Cough'', ''Fatigue''] then Some (PInt 0)
    else if s \<in> set symptom_columns then None
    else built_row sample_env sample_package maternal_case
           [''Lactic acidosis'', ''Muscle weakness'', ''Seizures''] s)"
  by (simp add: built_row_def sample_package_def row_value_def symptom_flag_def
      maternal_case_def symptom_columns_def)

theorem maternal_mitochondrial_rule_witness:
  "load_model_package sample_env = Inr sample_package
   \<and> distinct (classes sample_package)
   \<and> maternal_yes sample_env (built_row sample_env sample_package maternal_case
        [''Lactic acidosis'', ''Muscle weakness'', ''Seizures''])
   \<and> 3 \<le> length (filter (\<lambda>s. built_row sample_env sample_package maternal_case
        [''Lactic acidosis'', ''Muscle weakness'', ''Seizures''] s = Some (PInt 1)) mito_syms)
   \<and> (\<exists>pm. predict_disorder sample_env maternal_case =
              Inr (''Mitochondrial genetic inheritance disorders'', 90 / 100, pm))
   \<and> apply_domain_rules sample_env (built_row sample_env sample_package maternal_case
          [''Lactic acidosis'', ''Muscle weakness'', ''Seizures''])
          [2 / 10, 5 / 10, 3 / 10] (classes sample_package)
       = Inr [90 / 100, 5 / 100, 5 / 100]"
proof -
  let ?X = "built_row sample_env sample_package maternal_case
        [''Lactic acidosis'', ''Muscle weakness'', ''Seizures'']"
  have pkg: "load_model_package sample_env = Inr sample_package"
    by (simp add: sample_env_def)
  have cls: "distinct (classes sample_package)"
      "set (classes sample_package) = set VALID_CLASSES"
    by (simp_all add: sample_package_def VALID_CLASSES_def)
  have probs: "predict_proba sample_package ?X = Inr [2 / 10, 5 / 10, 3 / 10]"
      "length [2 / 10, 5 / 10, 3 / 10 :: rat] = 3"
    by (simp_all add: sample_package_def)
  have gene: "?X ''Maternal gene'' = Some (PStr ''Yes'')"
    by (simp add: built_row_def sample_package_def row_value_def not_symptom_column
        clinical_fields_def get_default_def maternal_case_def gene_flag_def py_str_def
        char_defs string_defs)
  have maternal: "maternal_yes sample_env ?X"
    by (simp add: maternal_yes_def says_yes_def get_default_def gene py_str_def
        char_defs string_defs)
  have nonneg: "\<forall>s\<in>set mito_syms. \<forall>n. ?X s = Some (PInt n) \<longrightarrow> 0 \<le> n"
    by (subst maternal_case_flags) (simp add: mito_syms_def symptom_columns_def)
  have three: "3 \<le> length (filter (\<lambda>s. ?X s = Some (PInt 1)) mito_syms)"
    by (subst maternal_case_flags) (simp add: mito_syms_def symptom_columns_def)
  have ref: "classes sample_package = VALID_CLASSES"
    by (simp add: sample_package_def)
  show ?thesis
    using pkg cls(1) maternal three ref
      maternal_mitochondrial_rule [OF pkg cls maternal_case_row probs maternal nonneg three]
    by blast
qed

lemma negative_flag_case_row:
  "build_input_row tremor_env negative_flag_case =
     Inr (built_row tremor_env tremor_package negative_flag_case
            [''Lactic acidosis'', ''Muscle weakness'', ''Seizures''])"
proof -
  have sel: "py_elems (get_default negative_flag_case ''Symptoms'' (PList []))
               = Inr [''Lactic acidosis'', ''Muscle weakness'', ''Seizures'']"
    by (simp add: py_elems_def get_default_def negative_flag_case_def maternal_case_def)
  have pkg: "load_model_package tremor_env = Inr tremor_package"
    by (simp add: tremor_env_def)
  show ?thesis
    unfolding built_row_def by (rule build_input_row_eq [OF sel pkg])
qed

lemma not_symptom_feature:
  "''Patient Age'' \<notin> set symptom_columns" "''Disorder'' \<notin> set symptom_columns"
  by (simp_all add: symptom_columns_def)

lemma negative_flag_case_flags:
  assumes "s \<in> set symptom_columns"
  shows "built_row tremor_env tremor_package negative_flag_case
     [''Lactic acidosis'', ''Muscle weakness'', ''Seizures''] s =
   (if s = ''Tremors'' then Some (PInt (- 1))
    else if s \<in> set [''Lactic acidosis'', ''Muscle weakness'', ''Seizures''] then Some (PInt 1)
    else if s \<in> set [''Cough'', ''Fatigue''] then Some (PInt 0)
    else None)"
proof -
  have ne: "s \<noteq> ''Maternal gene''" "s \<noteq> ''Symptoms''" "s \<noteq> ''Patient Age''"
      "s \<noteq> ''Disorder''" "s \<noteq> ''Birth asphyxia''" "s \<noteq> ''Genes in mother's side''"
    using assms not_symptom_column not_symptom_key not_symptom_feature by auto
  have ud: "negative_flag_case s = (if s = ''Tremors'' then Some (PInt (- 1)) else None)"
    using ne by (simp add: negative_flag_case_def maternal_case_def)
  have feat: "s \<in> set (feature_names tremor_package) \<longleftrightarrow>
      s \<in> set [''Tremors'', ''Lactic acidosis'', ''Muscle weakness'', ''Seizures'', ''Cough'',
               ''Fatigue'']"
    using ne by (simp add: tremor_package_def sample_package_def)
  have "built_row tremor_env tremor_package negative_flag_case
     [''Lactic acidosis'', ''Muscle weakness'', ''Seizures''] s =
     (if s \<in> set [''Tremors'', ''Lactic acidosis'', ''Muscle weakness'', ''Seizures'', ''Cough'',
               ''Fatigue'']
      then Some (PInt (if s = ''Tremors'' then - 1
                       else if s \<in> set [''Lactic acidosis'', ''Muscle weakness'', ''Seizures'']
                       then 1 else 0))
      else None)"
    unfolding built_row_def feat
    using assms ne(4) by (simp add: row_value_def symptom_flag_def ud py_int_def)
  then show ?thesis
    by auto
qed

lemma negative_flag_case_counts:
  "count_flags tremor_env (built_row tremor_env tremor_package negative_flag_case
     [''Lactic acidosis'', ''Muscle weakness'', ''Seizures'']) mito_syms = Inr 2"
  "count_flags tremor_env (built_row tremor_env tremor_package negative_flag_case
     [''Lactic acidosis'', ''Muscle weakness'', ''Seizures'']) sg_syms = Inr 0"
  "count_flags tremor_env (built_row tremor_env tremor_package negative_flag_case
     [''Lactic acidosis'', ''Muscle weakness'', ''Seizures'']) mf_syms = Inr 0"
proof -
  let ?X = "built_row tremor_env tremor_package negative_flag_case
     [''Lactic acidosis'', ''Muscle weakness'', ''Seizures'']"
  let ?g = "\<lambda>s. if s = ''Tremors'' then - 1
       else if s \<in> set [''Lactic acidosis'', ''Muscle weakness'', ''Seizures''] then 1
       else (0 :: int)"
  have fi: "flag_int ?X s = ?g s" if "s \<in> set symptom_columns" for s
    using negative_flag_case_flags [OF that] by (simp add: flag_int_def)
  have eq: "map (flag_int ?X) ss = map ?g ss" if "set ss \<subseteq> set symptom_columns" for ss
  proof (rule map_cong [OF refl])
    fix s
    assume "s \<in> set ss"
    with that have "s \<in> set symptom_columns" by auto
    then show "flag_int ?X s = ?g s" by (rule fi)
  qed
  have "sum_list (map ?g mito_syms) = 2"
    by (simp add: mito_syms_def)
  then show "count_flags tremor_env ?X mito_syms = Inr 2"
    by (simp add: count_flags_of_built_row [OF negative_flag_case_row cluster_subsets(1)]
        eq [OF cluster_subsets(1)])
  have "sum_list (map ?g sg_syms) = 0"
    by (simp add: sg_syms_def)
  then show "count_flags tremor_env ?X sg_syms = Inr 0"
    by (simp add: count_flags_of_built_row [OF negative_flag_case_row cluster_subsets(2)]
        eq [OF cluster_subsets(2)])
  have "sum_list (map ?g mf_syms) = 0"
    by (simp add: mf_syms_def)
  then show "count_flags tremor_env ?X mf_syms = Inr 0"
    by (simp add: count_flags_of_built_row [OF negative_flag_case_row cluster_subsets(3)]
        eq [OF cluster_subsets(3)])
qed

theorem maternal_mitochondrial_rule_counterexample:
  "(\<exists>X. build_input_row tremor_env negative_flag_case = Inr X
        \<and> maternal_yes tremor_env X
        \<and> 3 \<le> length (filter (\<lambda>s. X s = Some (PInt 1)) mito_syms)
        \<and> apply_domain_rules tremor_env X [2 / 10, 5 / 10, 3 / 10] VALID_CLASSES
            = Inr [2 / 10, 5 / 10, 3 / 10]
        \<and> (\<exists>pm. predict_disorder tremor_env negative_flag_case =
                   Inr (''Multifactorial genetic inheritance disorders'', 5 / 10, pm)))
   \<and> force [2 / 10, 5 / 10, 3 / 10] VALID_CLASSES
         ''Mitochondrial genetic inheritance disorders'' = Inr [90 / 100, 5 / 100, 5 / 100]
   \<and> [90 / 100, 5 / 100, 5 / 100] \<noteq> [5 / 100, 5 / 100, 90 / 100 :: rat]"
proof -
  let ?X = "built_row tremor_env tremor_package negative_flag_case
     [''Lactic acidosis'', ''Muscle weakness'', ''Seizures'']"
  have pkg: "load_model_package tremor_env = Inr tremor_package"
    by (simp add: tremor_env_def)
  have cn: "classes tremor_package = VALID_CLASSES"
    by (simp add: tremor_package_def sample_package_def)
  have probs: "predict_proba tremor_package ?X = Inr [2 / 10, 5 / 10, 3 / 10]"
    by (simp add: tremor_package_def sample_package_def)
  have gene: "?X ''Maternal gene'' = Some (PStr ''Yes'')"
    by (simp add: built_row_def tremor_package_def sample_package_def row_value_def
        not_symptom_column clinical_fields_def get_default_def negative_flag_case_def
        maternal_case_def gene_flag_def py_str_def char_defs string_defs)
  have maternal: "maternal_yes tremor_env ?X"
    by (simp add: maternal_yes_def says_yes_def get_default_def gene py_str_def
        char_defs string_defs)
  have "filter (\<lambda>s. ?X s = Some (PInt 1)) mito_syms
          = filter (\<lambda>s. s \<in> set [''Lactic acidosis'', ''Muscle weakness'', ''Seizures''])
              mito_syms"
  proof (rule filter_cong [OF refl])
    fix s
    assume "s \<in> set mito_syms"
    with cluster_subsets(1) have "s \<in> set symptom_columns" by auto
    then show "(?X s = Some (PInt 1))
                 = (s \<in> set [''Lactic acidosis'', ''Muscle weakness'', ''Seizures''])"
      by (auto simp add: negative_flag_case_flags)
  qed
  then have ones: "filter (\<lambda>s. ?X s = Some (PInt 1)) mito_syms
                = [''Lactic acidosis'', ''Muscle weakness'', ''Seizures'']"
    by (simp add: mito_syms_def)
  have rules: "apply_domain_rules tremor_env ?X [2 / 10, 5 / 10, 3 / 10] (classes tremor_package)
                 = Inr [2 / 10, 5 / 10, 3 / 10]"
    by (simp add: apply_domain_rules_def negative_flag_case_counts)
  have top: "argmax [2 / 10, 5 / 10, 3 / 10 :: rat] = Inr 1"
    by (simp add: argmax_def)
  have pred: "predict_disorder tremor_env negative_flag_case =
      Inr (''Multifactorial genetic inheritance disorders'', 5 / 10,
           assign Map.empty (zip (classes tremor_package) [2 / 10, 5 / 10, 3 / 10]))"
    using predict_after_rules [OF pkg negative_flag_case_row probs rules top]
    by (simp add: cn VALID_CLASSES_def near_uniform_def)
  have forced: "force [2 / 10, 5 / 10, 3 / 10] VALID_CLASSES
         ''Mitochondrial genetic inheritance disorders'' = Inr [90 / 100, 5 / 100, 5 / 100]"
    by (simp add: force_def class_index_def assign_def VALID_CLASSES_def)
  show ?thesis
    using negative_flag_case_row maternal ones rules pred forced by (simp add: cn)
qed

text \<open>
  C4. Let the classifier have three classes and score the assembled row with three
  probabilities, whatever they are. If the three cluster counts of the row are all zero,
  the adjusted distribution is 1/3 for each class, and \<open>predict_disorder\<close> returns the
  label \<open>No Disorder / Low Risk\<close> with confidence 0 and the map that gives each class
  1/3.
\<close>

theorem no_symptom_rule:
  assumes pkg: "load_model_package e = Inr pkg"
    and cls: "length (classes pkg) = 3"
    and row: "build_input_row e user_data = Inr X"
    and probs: "predict_proba pkg X = Inr base_probs" "length base_probs = 3"
    and zero: "count_flags e X mito_syms = Inr 0" "count_flags e X sg_syms = Inr 0"
      "count_flags e X mf_syms = Inr 0"
  shows "apply_domain_rules e X base_probs (classes pkg) = Inr [1 / 3, 1 / 3, 1 / 3]
       \<and> (\<exists>pm. predict_disorder e user_data = Inr (''No Disorder / Low Risk'', 0, pm)
              \<and> (\<forall>k. pm k = (if k \<in> set (classes pkg) then Some (1 / 3) else None)))"
proof -
  obtain a b c where cn: "classes pkg = [a, b, c]"
    using cls by (auto simp add: numeral_3_eq_3 length_Suc_conv)
  obtain x y z where bp: "base_probs = [x, y, z]"
    using probs(2) by (rule three_probs)
  have rules: "apply_domain_rules e X base_probs (classes pkg) = Inr [1 / 3, 1 / 3, 1 / 3]"
    using zero by (simp add: apply_domain_rules_def cn bp numeral_3_eq_3)
  have top: "argmax [1 / 3, 1 / 3, 1 / 3 :: rat] = Inr 0"
    by (simp add: argmax_def)
  have uniform: "near_uniform [1 / 3, 1 / 3, 1 / 3] (classes pkg)"
    by (simp add: near_uniform_def cn)
  have pred: "predict_disorder e user_data =
      Inr (''No Disorder / Low Risk'', 0,
           assign Map.empty (zip (classes pkg) [1 / 3, 1 / 3, 1 / 3]))"
    using predict_after_rules [OF pkg row probs(1) rules top] uniform by (simp add: cn)
  have "assign Map.empty (zip (classes pkg) [1 / 3, 1 / 3, 1 / 3 :: rat]) k
          = (if k \<in> set (classes pkg) then Some (1 / 3) else None)" for k
    by (simp add: cn assign_def)
  with rules pred show ?thesis by simp
qed

lemma no_symptom_case_row:
  "build_input_row sample_env no_symptom_case =
     Inr (built_row sample_env sample_package no_symptom_case [])"
proof -
  have sel: "py_elems (get_default no_symptom_case ''Symptoms'' (PList [])) = Inr []"
    by (simp add: py_elems_def get_default_def no_symptom_case_def)
  have pkg: "load_model_package sample_env = Inr sample_package"
    by (simp add: sample_env_def)
  show ?thesis
    unfolding built_row_def by (rule build_input_row_eq [OF sel pkg])
qed

lemma no_symptom_case_flags:
  assumes "s \<in> set symptom_columns"
  shows "flag sample_env (built_row sample_env sample_package no_symptom_case []) s = Inr 0"
proof -
  have "''Symptoms'' \<notin> set symptom_columns"
    by (simp add: symptom_columns_def)
  with assms not_symptom_column(2) have "s \<noteq> ''Maternal gene''" and "s \<noteq> ''Symptoms''"
    by auto
  then have "no_symptom_case s = None"
    by (simp add: no_symptom_case_def)
  with assms show ?thesis
    by (simp add: flag_def built_row_def get_default_def row_value_def symptom_flag_def
        py_int_def)
qed

lemma no_symptom_case_count:
  assumes "set ss \<subseteq> set symptom_columns"
  shows "count_flags sample_env (built_row sample_env sample_package no_symptom_case []) ss
           = Inr 0"
  using assms by (induction ss) (simp_all add: no_symptom_case_flags)

theorem no_symptom_rule_witness:
  "load_model_package sample_env = Inr sample_package
   \<and> length (classes sample_package) = 3
   \<and> count_flags sample_env (built_row sample_env sample_package no_symptom_case [])
        mito_syms = Inr 0
   \<and> (\<exists>pm. predict_disorder sample_env no_symptom_case
              = Inr (''No Disorder / Low Risk'', 0, pm)
          \<and> pm ''Single-gene inheritance diseases'' = Some (1 / 3))"
proof -
  let ?X = "built_row sample_env sample_package no_symptom_case []"
  have pkg: "load_model_package sample_env = Inr sample_package"
    by (simp add: sample_env_def)
  have cls: "length (classes sample_package) = 3"
    by (simp add: sample_package_def VALID_CLASSES_def)
  have probs: "predict_proba sample_package ?X = Inr [2 / 10, 5 / 10, 3 / 10]"
      "length [2 / 10, 5 / 10, 3 / 10 :: rat] = 3"
    by (simp_all add: sample_package_def)
  have zero: "count_flags sample_env ?X mito_syms = Inr 0"
      "count_flags sample_env ?X sg_syms = Inr 0"
      "count_flags sample_env ?X mf_syms = Inr 0"
    by (simp_all add: no_symptom_case_count cluster_subsets)
  have member: "''Single-gene inheritance diseases'' \<in> set (classes sample_package)"
    by (simp add: sample_package_def VALID_CLASSES_def)
  show ?thesis
    using pkg cls zero(1) member
      no_symptom_rule [OF pkg cls no_symptom_case_row probs zero]
    by auto
qed

section \<open>The final prediction\<close>

lemma map_answers_ignores_results:
  "map_answers_to_model_features (s\<lparr>final_prediction := p, report_pdf_path := r\<rparr>)
     = map_answers_to_model_features s"
  by (simp add: map_answers_to_model_features_def)

lemma default_flags_apply:
  "fold (\<lambda>c a. (case a c of
                  None \<Rightarrow> a(c \<mapsto> PInt (if c \<in> set selected then 1 else 0))
                | Some v \<Rightarrow> a)) cols a0 k
     = (case a0 k of
          Some v \<Rightarrow> Some v
        | None \<Rightarrow> if k \<in> set cols then Some (PInt (if k \<in> set selected then 1 else 0))
                  else None)"
  by (induction cols arbitrary: a0) (auto split: option.splits)

lemma final_prediction_step_eq:
  assumes "map_answers_to_model_features s = Inr mapped_data"
    and "predict_disorder e mapped_data = Inr (pred, conf, pm)"
  shows "final_prediction_step e s =
     (generate_and_store_report e
        (s\<lparr>report_pdf_path := None,
           final_prediction := Some (prediction_summary e pred conf)\<rparr>) mapped_data,
      Inr (prediction_summary e pred conf
            @ report_download_message e
                (generate_and_store_report e
                   (s\<lparr>report_pdf_path := None,
                      final_prediction := Some (prediction_summary e pred conf)\<rparr>)
                   mapped_data)))"
  using assms
  by (simp add: final_prediction_step_def map_answers_ignores_results Let_def)


lemma rules_give_three:
  assumes cls: "distinct (classes pkg)" "set (classes pkg) = set VALID_CLASSES"
    and row: "build_input_row e user_data = Inr X"
    and len: "length base_probs = 3"
  shows "\<exists>adj. apply_domain_rules e X base_probs (classes pkg) = Inr adj \<and> length adj = 3"
proof -
  obtain a b c where cn: "classes pkg = [a, b, c]"
    using cls by (rule three_classes)
  obtain x y z where bp: "base_probs = [x, y, z]"
    using len by (rule three_probs)
  have abc: "distinct [a, b, c]" and "set [a, b, c] = set VALID_CLASSES"
    using cls by (simp_all add: cn)
  then have mem: "''Mitochondrial genetic inheritance disorders'' \<in> set [a, b, c]"
      "''Multifactorial genetic inheritance disorders'' \<in> set [a, b, c]"
      "''Single-gene inheritance diseases'' \<in> set [a, b, c]"
    by (simp_all add: VALID_CLASSES_def)
  show ?thesis
    using force_three [OF abc mem(1), of x y z] force_three [OF abc mem(2), of x y z]
      force_three [OF abc mem(3), of x y z]
    by (simp add: apply_domain_rules_def count_flags_of_built_row [OF row] cluster_subsets
        cn bp numeral_3_eq_3)
qed

lemma argmax_three: "\<exists>i<3. argmax [p, q, r] = Inr i"
  by (simp add: argmax_def)

lemma predict_disorder_succeeds:
  assumes pkg: "load_model_package e = Inr pkg"
    and cls: "distinct (classes pkg)" "set (classes pkg) = set VALID_CLASSES"
    and row: "build_input_row e user_data = Inr X"
    and probs: "predict_proba pkg X = Inr base_probs" "length base_probs = 3"
  shows "\<exists>label conf pm. predict_disorder e user_data = Inr (label, conf, pm)"
proof -
  obtain a b c where cn: "classes pkg = [a, b, c]"
    using cls by (rule three_classes)
  obtain adj where adj: "apply_domain_rules e X base_probs (classes pkg) = Inr adj"
      "length adj = 3"
    using rules_give_three [OF cls row probs(2)] by blast
  obtain p q r where "adj = [p, q, r]"
    using adj(2) by (rule three_probs)
  with adj(1) have rules: "apply_domain_rules e X base_probs (classes pkg) = Inr [p, q, r]"
    by simp
  obtain i where i: "i < 3" "argmax [p, q, r] = Inr i"
    using argmax_three by blast
  have "i < length (classes pkg)" and "length (classes pkg) \<le> length [p, q, r]"
    using i(1) by (simp_all add: cn)
  then show ?thesis
    using predict_after_rules [OF pkg row probs(1) rules i(2)] by simp
qed




section \<open>Totality of the step normalizers\<close>

lemma dec_value_zeros:
  "foldl (\<lambda>a c. 10 * a + (ord c - 48)) a (replicate n (CHR ''0'')) = a * 10 ^ n"
  by (induction n arbitrary: a) (simp_all add: ord_def)

lemma extract_numeric_huge: "extract_numeric huge_number = PosInf"
proof -
  have digit: "is_decimal (CHR ''0'')" "is_decimal (CHR ''1'')"
    by (simp_all add: is_decimal_def ord_def)
  have body: "num_body huge_number = Some (huge_number, [])"
    by (simp add: num_body_def huge_number_def digit takeWhile_replicate dropWhile_replicate)
  have search: "num_search huge_number = Some (False, huge_number, [])"
    using body by (simp add: huge_number_def)
  have one: "ord (CHR ''1'') - 48 = 1"
    by (simp add: ord_def)
  have "dec_value huge_number
          = foldl (\<lambda>a c. 10 * a + (ord c - 48)) 1 (replicate 400 (CHR ''0''))"
    by (simp add: dec_value_def huge_number_def one)
  also have "\<dots> = 1 * 10 ^ 400"
    by (rule dec_value_zeros)
  finally have dv: "dec_value huge_number = 10 ^ 400"
    by simp
  have "float_of_rat (of_nat (10 ^ 400)) = PosInf"
    by (simp add: float_of_rat_def)
  moreover have "dec_value [] = 0"
    by (simp add: dec_value_def)
  ultimately have "float_of_match (False, huge_number, []) = PosInf"
    by (simp add: float_of_match_def dv)
  with search show ?thesis
    by (simp add: extract_numeric_def)
qed

lemma abortion_count_raises_iff:
  "(\<exists>err. abortion_count x = Inl err) \<longleftrightarrow> extract_numeric x \<in> {PosInf, NegInf, NaN}"
  by (cases "extract_numeric x") (simp_all add: abortion_count_def py_round_def)

lemma other_steps_total:
  assumes "steps_map k = Some (key, mapper, next_prompt)" and "k \<noteq> 12"
  shows "\<exists>v. mapper x = Inr v"
  using assms
  by (auto simp add: steps_map_def steps_table_def str_step_def split: if_splits)

text \<open>
  C7, at the failing input. The answer to step 12 that consists of a one followed by
  400 zeros is a number: the float read from it is infinite, \<open>round\<close> raises
  \<open>OverflowError\<close> on it, so the normalizer of step 12 raises, and \<open>handle_input\<close>
  raises with it and leaves the state as it was. (Every other step normalizer returns a
  value on every input: \<open>other_steps_total\<close>.)
\<close>

theorem abortion_count_overflow:
  "abortion_count huge_number = Inl OverflowError
   \<and> handle_input sample_env (at_step 12) huge_number = (at_step 12, Inl OverflowError)"
proof -
  have raises: "abortion_count huge_number = Inl OverflowError"
    by (simp add: abortion_count_def extract_numeric_huge py_round_def)
  have "\<not> symptom_selection_pending (at_step 12)" and "step (at_step 12) = Num 12"
    by (simp_all add: at_step_def reset_session_def)
  then have "handle_input sample_env (at_step 12) huge_number = (at_step 12, Inl OverflowError)"
    using raises by (simp add: handle_input_def steps_map_def steps_table_def)
  with raises show ?thesis by simp
qed

section \<open>A full scripted run\<close>

lemma run_snoc: "run e s (xs @ [x]) = fst (handle_input e (run e s xs) x)"
  by (induction xs arbitrary: s) simp_all

lemma steps_map_defined:
  assumes "0 \<le> k" and "k \<le> 22"
  shows "\<exists>key mapper next_prompt. steps_map k = Some (key, mapper, next_prompt)"
proof -
  have "k = 0 \<or> k = 1 \<or> k = 2 \<or> k = 3 \<or> k = 4 \<or> k = 5 \<or> k = 6 \<or> k = 7
      \<or> k = 8 \<or> k = 9 \<or> k = 10 \<or> k = 11 \<or> k = 12 \<or> k = 13 \<or> k = 14 \<or> k = 15
      \<or> k = 16 \<or> k = 17 \<or> k = 18 \<or> k = 19 \<or> k = 20 \<or> k = 21 \<or> k = 22"
    using assms by presburger
  then show ?thesis
    by (auto simp add: steps_map_def steps_table_def)
qed

lemma steps_map_entry:
  assumes "steps_map k = Some (key, mapper, next_prompt)"
  shows "key \<noteq> ''Symptoms''"
    and "k \<noteq> 4 \<Longrightarrow> next_prompt \<noteq> ''symptom_selection''"
    and "k \<noteq> 22 \<Longrightarrow> next_prompt \<noteq> ''Final step''"
    and "k = 12 \<Longrightarrow> mapper = abortion_count"
    and "k = 4 \<Longrightarrow> next_prompt = ''symptom_selection''"
    and "k = 22 \<Longrightarrow> next_prompt = ''Final step''"
  using assms
  by (auto simp add: steps_map_def steps_table_def split: if_splits)

lemma store_answer_keeps_symptoms:
  assumes "key \<noteq> ''Symptoms''"
  shows "store_answer key val a ''Symptoms'' = a ''Symptoms''"
  using assms by (simp add: store_answer_def Let_def)

lemma normal_step:
  assumes "steps_map k = Some (key, mapper, next_prompt)" and "mapper m = Inr v"
    and "next_prompt \<noteq> ''symptom_selection''" and "next_prompt \<noteq> ''Final step''"
    and "\<not> symptom_selection_pending s" and "step s = Num k"
  shows "handle_input e s m =
           (s\<lparr>answers := store_answer key v (answers s), step := Num (k + 1)\<rparr>,
            Inr (Text next_prompt))"
  using assms by (simp add: handle_input_def)

lemma advance:
  assumes "in_phase k False s" and "0 \<le> k" and "k \<le> 21" and "k \<noteq> 4"
    and "k = 12 \<longrightarrow> \<not> isl (abortion_count m)" and "k \<noteq> 5"
  shows "in_phase (k + 1) False (fst (handle_input e s m))"
proof -
  obtain key mapper next_prompt where entry: "steps_map k = Some (key, mapper, next_prompt)"
    using steps_map_defined [of k] assms(2,3) by auto
  have "\<exists>v. mapper m = Inr v"
  proof (cases "k = 12")
    case True
    then have "mapper = abortion_count"
      using steps_map_entry(4) [OF entry] by simp
    with True assms(5) show ?thesis
      by (cases "abortion_count m") simp_all
  next
    case False
    then show ?thesis
      using other_steps_total [OF entry] by simp
  qed
  then obtain v where v: "mapper m = Inr v" by blast
  have np: "next_prompt \<noteq> ''symptom_selection''" "next_prompt \<noteq> ''Final step''"
    using steps_map_entry(2,3) [OF entry] assms(3,4) by auto
  have st: "\<not> symptom_selection_pending s" "step s = Num k"
    using assms(1) by (simp_all add: in_phase_def)
  have "handle_input e s m =
           (s\<lparr>answers := store_answer key v (answers s), step := Num (k + 1)\<rparr>,
            Inr (Text next_prompt))"
    by (rule normal_step [OF entry v np st])
  then show ?thesis
    using assms(1,6) store_answer_keeps_symptoms [OF steps_map_entry(1) [OF entry]]
    by (auto simp add: in_phase_def)
qed

lemma open_selection:
  assumes "in_phase 4 False s"
  shows "in_phase 4 True (fst (handle_input e s m))"
  using assms
  by (simp add: in_phase_def handle_input_def steps_map_def steps_table_def str_step_def)

lemma take_selection:
  assumes "in_phase k True s" and "valid_selection m"
  shows "in_phase 6 False (fst (handle_input e s m))"
proof -
  let ?ts = "filter isdigit_str (map py_strip (split_on (CHR '','') m))"
  have "\<not> list_ex (\<lambda>t. \<not> is_numeral t) ?ts"
    using assms(2) by (simp add: valid_selection_def list_all_iff list_ex_iff)
  then have "\<not> (\<exists>err. parse_indices ?ts = Inl err)"
    using parse_indices_error [of ?ts] by simp
  then obtain idx where idx: "parse_indices ?ts = Inr idx"
    by (cases "parse_indices ?ts") auto
  obtain cat where cat: "symptom_list s = Some cat"
    using assms(1) by (auto simp add: in_phase_def)
  have "\<exists>sel. select_symptoms s m = Inr sel"
    by (simp add: select_symptoms_def idx cat)
  then show ?thesis
    using assms(1) by (auto simp add: in_phase_def handle_input_def)
qed

lemma last_step:
  assumes "in_phase 22 False s"
  shows "step (fst (handle_input e s m)) = Name ''final_waiting''"
    and "\<not> symptom_selection_pending (fst (handle_input e s m))"
    and "final_prediction (fst (handle_input e s m)) = None"
    and "\<exists>sel. answers (fst (handle_input e s m)) ''Symptoms'' = Some (PList sel)"
    and "snd (handle_input e s m) = Inr (WaitAndPredict
           ''Please wait... Your genetic risk assessment report is being generated.'')"
  using assms
  by (simp_all add: in_phase_def handle_input_def steps_map_def steps_table_def str_step_def
      store_answer_def)

lemma map_answers_ok:
  assumes "answers s ''Symptoms'' = Some (PList sel)"
  shows "\<exists>mapped_data. map_answers_to_model_features s = Inr mapped_data"
  using assms
  by (simp add: map_answers_to_model_features_def get_default_def py_elems_def Let_def)

lemma mapped_symptoms_iterable:
  assumes "map_answers_to_model_features s = Inr mapped_data"
  shows "\<exists>sel. py_elems (get_default mapped_data ''Symptoms'' (PList [])) = Inr sel"
  using assms
  by (auto simp add: map_answers_to_model_features_def get_default_def default_flags_apply
      not_symptom_key Let_def split: sum.splits option.splits)

lemma report_keeps_prediction:
  "final_prediction (generate_and_store_report e s mapped_data) = final_prediction s"
  by (simp add: generate_and_store_report_def split: sum.splits)

lemma final_call:
  assumes "step s = Name ''final_waiting''" and "\<not> symptom_selection_pending s"
    and "map_answers_to_model_features s = Inr mapped_data"
  shows "is_analysis_complete (fst (handle_input e s m))
           \<longleftrightarrow> (\<exists>r. predict_disorder e mapped_data = Inr r)"
    and "(\<exists>t. snd (handle_input e s m) = Inr (FinalResult t))
           \<longleftrightarrow> (\<exists>r. predict_disorder e mapped_data = Inr r)"
proof -
  show "is_analysis_complete (fst (handle_input e s m))
           \<longleftrightarrow> (\<exists>r. predict_disorder e mapped_data = Inr r)"
  proof (cases "predict_disorder e mapped_data")
    case (Inl err)
    with assms show ?thesis
      by (simp add: handle_input_def final_prediction_step_def map_answers_ignores_results
          is_analysis_complete_def)
  next
    case (Inr r)
    obtain pred conf pm where r: "r = (pred, conf, pm)" by (cases r)
    show ?thesis
      using assms(1,2) Inr r
      by (auto simp add: handle_input_def
          final_prediction_step_eq [OF assms(3) Inr [unfolded r]]
          is_analysis_complete_def report_keeps_prediction)
  qed
  show "(\<exists>t. snd (handle_input e s m) = Inr (FinalResult t))
           \<longleftrightarrow> (\<exists>r. predict_disorder e mapped_data = Inr r)"
  proof (cases "predict_disorder e mapped_data")
    case (Inl err)
    with assms show ?thesis
      by (simp add: handle_input_def final_prediction_step_def map_answers_ignores_results)
  next
    case (Inr r)
    obtain pred conf pm where r: "r = (pred, conf, pm)" by (cases r)
    show ?thesis
      using assms(1,2) Inr r
      by (auto simp add: handle_input_def
          final_prediction_step_eq [OF assms(3) Inr [unfolded r]])
  qed
qed

lemma phases_of_run:
  assumes "valid_script ms" and "n \<le> 22"
  shows "in_phase (if n = 5 then 4 else int n) (n = 5) (run e (fst reset_session) (take n ms))"
  using assms(2)
proof (induction n)
  case 0
  then show ?case
    by (simp add: in_phase_def reset_session_def)
next
  case (Suc n)
  let ?s = "run e (fst reset_session) (take n ms)"
  have len: "n < length ms"
    using assms(1) Suc.prems by (simp add: valid_script_def)
  have next_state: "run e (fst reset_session) (take (Suc n) ms)
                      = fst (handle_input e ?s (ms ! n))"
    by (simp add: take_Suc_conv_app_nth [OF len] run_snoc)
  have IH: "in_phase (if n = 5 then 4 else int n) (n = 5) ?s"
    using Suc by simp
  consider "n = 4" | "n = 5" | "n \<noteq> 4" "n \<noteq> 5"
    by blast
  then show ?case
  proof cases
    case 1
    show ?thesis
      unfolding next_state using 1 IH open_selection [of ?s e "ms ! n"] by simp
  next
    case 2
    then have "valid_selection (ms ! n)"
      using assms(1) by (simp add: valid_script_def)
    then show ?thesis
      unfolding next_state using 2 IH take_selection [of 4 ?s "ms ! n" e] by simp
  next
    case 3
    have "int n = 12 \<longrightarrow> \<not> isl (abortion_count (ms ! n))"
      using assms(1) by (auto simp add: valid_script_def)
    moreover have "int n \<le> 21" "int n \<noteq> 4" "int n \<noteq> 5"
      using Suc.prems 3 by simp_all
    ultimately have "in_phase (int n + 1) False (fst (handle_input e ?s (ms ! n)))"
      using IH 3 advance [of "int n" ?s "ms ! n" e] by simp
    then show ?thesis
      unfolding next_state using 3 by (simp add: add.commute)
  qed
qed

text \<open>
  C5. Take a script of 23 valid answers (steps 0 to 4, the symptom selection, steps 6 to
  22; valid: every token of digits in the selection is a numeral that \<open>int()\<close> reads,
  and the abortion count of step 12 is read without an exception) and run it on a fresh
  session. After each of the 23 calls, the last one included,
  \<open>is_analysis_complete\<close> is false; the last call returns the processing payload and
  leaves the step at the waiting sentinel. On the call after it the answers are mapped
  to the model's features, and \<open>is_analysis_complete\<close> is true after that call exactly
  when the predictor returns on them, which is also exactly when the call returns the
  final-result payload.
\<close>

theorem completion_after_handoff:
  assumes "valid_script ms"
  shows "(\<forall>n\<le>23. \<not> is_analysis_complete (run e (fst reset_session) (take n ms)))
       \<and> snd (handle_input e (run e (fst reset_session) (take 22 ms)) (ms ! 22))
           = Inr (WaitAndPredict
                    ''Please wait... Your genetic risk assessment report is being generated.'')
       \<and> step (run e (fst reset_session) ms) = Name ''final_waiting''
       \<and> (\<exists>mapped_data.
             map_answers_to_model_features (run e (fst reset_session) ms) = Inr mapped_data
             \<and> (is_analysis_complete (fst (handle_input e (run e (fst reset_session) ms) m))
                  \<longleftrightarrow> (\<exists>r. predict_disorder e mapped_data = Inr r))
             \<and> ((\<exists>t. snd (handle_input e (run e (fst reset_session) ms) m)
                         = Inr (FinalResult t))
                  \<longleftrightarrow> (\<exists>r. predict_disorder e mapped_data = Inr r)))"
proof -
  let ?run = "\<lambda>n. run e (fst reset_session) (take n ms)"
  have len: "length ms = 23"
    using assms by (simp add: valid_script_def)
  have early: "final_prediction (?run n) = None" if "n \<le> 22" for n
    using phases_of_run [OF assms that, of e] by (simp add: in_phase_def)
  have p22: "in_phase 22 False (?run 22)"
    using phases_of_run [OF assms, of 22 e] by simp
  have whole: "run e (fst reset_session) ms = fst (handle_input e (?run 22) (ms ! 22))"
  proof -
    have "take 23 ms = take 22 ms @ [ms ! 22]"
      using len take_Suc_conv_app_nth [of 22 ms] by simp
    then have "run e (fst reset_session) (take 23 ms)
                 = fst (handle_input e (?run 22) (ms ! 22))"
      by (simp add: run_snoc)
    then show ?thesis
      using len by simp
  qed
  have last: "final_prediction (run e (fst reset_session) ms) = None"
      "step (run e (fst reset_session) ms) = Name ''final_waiting''"
      "\<not> symptom_selection_pending (run e (fst reset_session) ms)"
      "\<exists>sel. answers (run e (fst reset_session) ms) ''Symptoms'' = Some (PList sel)"
    using last_step(1-4) [OF p22, of e "ms ! 22"] by (simp_all add: whole)
  have first: "\<forall>n\<le>23. \<not> is_analysis_complete (?run n)"
  proof (intro allI impI)
    fix n :: nat
    assume "n \<le> 23"
    then consider "n \<le> 22" | "n = 23" by linarith
    then show "\<not> is_analysis_complete (?run n)"
    proof cases
      case 1
      then show ?thesis
        using early by (simp add: is_analysis_complete_def)
    next
      case 2
      then show ?thesis
        using last(1) len by (simp add: is_analysis_complete_def)
    qed
  qed
  obtain mapped_data where
    md: "map_answers_to_model_features (run e (fst reset_session) ms) = Inr mapped_data"
    using last(4) map_answers_ok by blast
  show ?thesis
    using first last_step(5) [OF p22, of e "ms ! 22"] last(2) md
      final_call [OF last(2,3) md, of e m]
    by blast
qed

lemma sample_script_valid: "valid_script sample_script"
proof -
  have "valid_selection ''44, 37, 39, 2''"
    by (simp add: valid_selection_def is_numeral_def max_str_digits_def char_defs string_defs)
  moreover have "abortion_count ''0'' = Inr (PInt 0)"
    by (simp add: abortion_count_def extract_numeric_zero py_round_def round_half_even_def)
  ultimately show ?thesis
    by (simp add: valid_script_def sample_script_def)
qed

theorem completion_after_handoff_witness:
  "valid_script sample_script
   \<and> \<not> is_analysis_complete (run sample_env (fst reset_session) sample_script)
   \<and> step (run sample_env (fst reset_session) sample_script) = Name ''final_waiting''
   \<and> is_analysis_complete
       (fst (handle_input sample_env (run sample_env (fst reset_session) sample_script) ''go''))"
proof -
  let ?s = "run sample_env (fst reset_session) sample_script"
  have len: "take 23 sample_script = sample_script"
    by (simp add: sample_script_def)
  have main: "(\<forall>n\<le>23. \<not> is_analysis_complete
                  (run sample_env (fst reset_session) (take n sample_script)))
       \<and> step ?s = Name ''final_waiting''
       \<and> (\<exists>mapped_data. map_answers_to_model_features ?s = Inr mapped_data
             \<and> (is_analysis_complete (fst (handle_input sample_env ?s ''go''))
                  \<longleftrightarrow> (\<exists>r. predict_disorder sample_env mapped_data = Inr r)))"
    using completion_after_handoff [OF sample_script_valid, of sample_env "''go''"] by blast
  then have before: "\<not> is_analysis_complete ?s"
    using len by (metis order_refl)
  obtain mapped_data where md: "map_answers_to_model_features ?s = Inr mapped_data"
    and iff: "is_analysis_complete (fst (handle_input sample_env ?s ''go''))
                \<longleftrightarrow> (\<exists>r. predict_disorder sample_env mapped_data = Inr r)"
    using main by blast
  obtain sel where sel: "py_elems (get_default mapped_data ''Symptoms'' (PList [])) = Inr sel"
    using mapped_symptoms_iterable [OF md] by blast
  have pkg: "load_model_package sample_env = Inr sample_package"
    by (simp add: sample_env_def)
  have cls: "distinct (classes sample_package)"
      "set (classes sample_package) = set VALID_CLASSES"
    by (simp_all add: sample_package_def VALID_CLASSES_def)
  obtain X where row: "build_input_row sample_env mapped_data = Inr X"
    using build_input_row_eq [OF sel pkg] by blast
  have probs: "predict_proba sample_package X = Inr [2 / 10, 5 / 10, 3 / 10]"
      "length [2 / 10, 5 / 10, 3 / 10 :: rat] = 3"
    by (simp_all add: sample_package_def)
  have "\<exists>r. predict_disorder sample_env mapped_data = Inr r"
    using predict_disorder_succeeds [OF pkg cls row probs] by blast
  with iff have "is_analysis_complete (fst (handle_input sample_env ?s ''go''))"
    by simp
  with sample_script_valid before main show ?thesis
    by blast
qed

end
